theory Spec2Isabelle
  imports Complex_Main "HOL-Library.Log_Nat" "HOL-Library.Sublist"
begin

text \<open>
  The compliance engine of \<^verbatim>\<open>compliance.py\<close>: the scoring rules, the collectors that turn
  provider records into events, and the aggregation of events into risk tiers, trends,
  recommendations and the report. Calls to the provider, the clock, the parsing of dates,
  the sorting of the report's event list and the writing of the report are parameters.
\<close>

section \<open>Python values\<close>

subsection \<open>Floats\<close>

text \<open>
  A Python float is an IEEE 754 binary64 number. It is modelled by the rational number it
  denotes; every arithmetic operation is the exact operation followed by \<open>rnd\<close>, rounding
  to 53 significant bits, nearest, ties to even. The exponent range is not modelled (no
  overflow, no subnormal numbers, no NaN): the scores, averages and percentages of the
  engine are 0 or of a magnitude far inside the normal range.
\<close>

type_synonym pyfloat = rat

definition pow2 :: "int \<Rightarrow> rat" where
  "pow2 e = (if 0 \<le> e then 2 ^ nat e else 1 / 2 ^ nat (- e))"

text \<open>\<open>ilog2 a\<close> is the exponent \<open>e\<close> with \<open>2\<^sup>e \<le> a < 2\<^sup>e\<^sup>+\<^sup>1\<close>, for \<open>a > 0\<close>.\<close>

definition ilog2 :: "rat \<Rightarrow> int" where
  "ilog2 a = (if 1 \<le> a then bitlen \<lfloor>a\<rfloor> - 1 else - bitlen (\<lceil>1 / a\<rceil> - 1))"

definition round_half_even :: "rat \<Rightarrow> int" where
  "round_half_even y =
     (let f = \<lfloor>y\<rfloor>; r = y - of_int f
      in if r < 1 / 2 then f else if 1 / 2 < r then f + 1
         else if even f then f else f + 1)"

definition rnd :: "rat \<Rightarrow> pyfloat" where
  "rnd x = (if x = 0 then 0
            else let a = \<bar>x\<bar>; u = pow2 (ilog2 a - 52)
                 in sgn x * of_int (round_half_even (a / u)) * u)"

definition fadd :: "pyfloat \<Rightarrow> pyfloat \<Rightarrow> pyfloat" where
  "fadd a b = rnd (a + b)"

definition fsub :: "pyfloat \<Rightarrow> pyfloat \<Rightarrow> pyfloat" where
  "fsub a b = rnd (a - b)"

definition fmul :: "pyfloat \<Rightarrow> pyfloat \<Rightarrow> pyfloat" where
  "fmul a b = rnd (a * b)"

text \<open>Division is only used with a divisor that the source has checked to be non-zero.\<close>

definition fdiv :: "pyfloat \<Rightarrow> pyfloat \<Rightarrow> pyfloat" where
  "fdiv a b = rnd (a / b)"

text \<open>The decimal literals of the source: \<^verbatim>\<open>0.3\<close> is the double nearest to \<open>3 / 10\<close>,
  and so on. The literals \<^verbatim>\<open>0.0\<close>, \<^verbatim>\<open>1.0\<close> and \<^verbatim>\<open>100\<close> are the numbers themselves.\<close>

definition py_0_1 :: pyfloat where
  "py_0_1 = rnd (1 / 10)"

definition py_0_2 :: pyfloat where
  "py_0_2 = rnd (2 / 10)"

definition py_0_3 :: pyfloat where
  "py_0_3 = rnd (3 / 10)"

definition py_0_5 :: pyfloat where
  "py_0_5 = rnd (5 / 10)"

definition py_0_7 :: pyfloat where
  "py_0_7 = rnd (7 / 10)"

definition py_0_8 :: pyfloat where
  "py_0_8 = rnd (8 / 10)"

definition py_0_9 :: pyfloat where
  "py_0_9 = rnd (9 / 10)"

subsection \<open>Strings\<close>

text \<open>
  Strings are character lists. \<open>str_lower\<close> is \<^verbatim>\<open>str.lower\<close> on ASCII: the letters
  \<^verbatim>\<open>A\<close> to \<^verbatim>\<open>Z\<close> are mapped to \<^verbatim>\<open>a\<close> to \<^verbatim>\<open>z\<close>, every other character stays.
  \<^verbatim>\<open>p in s\<close> on strings is \<open>sublist p s\<close>.
\<close>

definition lower_char :: "char \<Rightarrow> char" where
  "lower_char c =
     (let n = (of_char c :: nat) in if 65 \<le> n \<and> n \<le> 90 then char_of (n + 32) else c)"

definition str_lower :: "string \<Rightarrow> string" where
  "str_lower s = map lower_char s"

subsection \<open>Provider records\<close>

text \<open>
  The records of the provider are parsed JSON: dictionaries, lists, strings, integers,
  booleans and null. A dictionary is an association list read with \<open>map_of\<close>. The numbers
  the engine reads (counts of comments, additions, deletions) are integers.
\<close>

datatype json =
    JNull
  | JBool bool
  | JInt int
  | JStr string
  | JList "json list"
  | JObj "(string \<times> json) list"

datatype py_error =
    KeyError string
  | TypeError
  | AttributeError
  | OSError

type_synonym 'a result = "py_error + 'a"

definition bind_result :: "'a result \<Rightarrow> ('a \<Rightarrow> 'b result) \<Rightarrow> 'b result" where
  "bind_result r f = (case r of Inl e \<Rightarrow> Inl e | Inr v \<Rightarrow> f v)"

text \<open>\<^verbatim>\<open>d[k]\<close> with a string key: KeyError on a dictionary without the key, TypeError on
  every other value.\<close>

fun getitem :: "json \<Rightarrow> string \<Rightarrow> json result" where
  "getitem (JObj kvs) k = (case map_of kvs k of None \<Rightarrow> Inl (KeyError k) | Some v \<Rightarrow> Inr v)"
| "getitem _ k = Inl TypeError"

text \<open>\<^verbatim>\<open>d.get(k, default)\<close>: only dictionaries have the method.\<close>

fun py_get :: "json \<Rightarrow> string \<Rightarrow> json \<Rightarrow> json result" where
  "py_get (JObj kvs) k d = Inr (case map_of kvs k of None \<Rightarrow> d | Some v \<Rightarrow> v)"
| "py_get _ k d = Inl AttributeError"

fun py_len :: "json \<Rightarrow> nat result" where
  "py_len (JStr s) = Inr (length s)"
| "py_len (JList xs) = Inr (length xs)"
| "py_len (JObj kvs) = Inr (length kvs)"
| "py_len _ = Inl TypeError"

text \<open>Truthiness, as \<^verbatim>\<open>not v\<close> tests it.\<close>

fun truthy :: "json \<Rightarrow> bool" where
  "truthy JNull = False"
| "truthy (JBool b) = b"
| "truthy (JInt n) = (n \<noteq> 0)"
| "truthy (JStr s) = (s \<noteq> [])"
| "truthy (JList xs) = (xs \<noteq> [])"
| "truthy (JObj kvs) = (kvs \<noteq> [])"

text \<open>\<^verbatim>\<open>v == 0\<close>: booleans are integers in Python, so \<^verbatim>\<open>False == 0\<close>.\<close>

fun eq_zero :: "json \<Rightarrow> bool" where
  "eq_zero (JInt n) = (n = 0)"
| "eq_zero (JBool b) = (\<not> b)"
| "eq_zero _ = False"

text \<open>The value of an operand of integer arithmetic; anything but an integer or a
  boolean makes \<^verbatim>\<open>a + b > 1000\<close> raise TypeError.\<close>

fun py_int :: "json \<Rightarrow> int result" where
  "py_int (JInt n) = Inr n"
| "py_int (JBool b) = Inr (if b then 1 else 0)"
| "py_int _ = Inl TypeError"

text \<open>\<^verbatim>\<open>s.lower()\<close>: only strings have the method.\<close>

fun py_lower :: "json \<Rightarrow> string result" where
  "py_lower (JStr s) = Inr (str_lower s)"
| "py_lower _ = Inl AttributeError"

section \<open>Scoring rules\<close>

definition conventional_prefixes :: "string list" where
  "conventional_prefixes =
     [''feat:'', ''fix:'', ''docs:'', ''style:'', ''refactor:'', ''test:'', ''chore:'']"

definition calculate_commit_compliance_score :: "json \<Rightarrow> pyfloat result" where
  "calculate_commit_compliance_score commit =
     bind_result (getitem commit ''commit'') (\<lambda>c.
     bind_result (getitem c ''message'') (\<lambda>raw.
     bind_result (py_lower raw) (\<lambda>message.
     bind_result (py_len raw) (\<lambda>n.
     let score = 1;
         score = (if n < 10 then fsub score py_0_3 else score);
         score = (if \<not> (list_ex (\<lambda>prefix. sublist prefix message) conventional_prefixes)
                  then fsub score py_0_2 else score)
     in
     bind_result (py_get commit ''files'' (JList [])) (\<lambda>files.
     bind_result (py_len files) (\<lambda>files_changed.
     let score = (if files_changed > 20 then fsub score py_0_2 else score)
     in Inr (max 0 score)))))))"

definition calculate_pr_compliance_score :: "json \<Rightarrow> pyfloat result" where
  "calculate_pr_compliance_score pr =
     bind_result (py_get pr ''body'' JNull) (\<lambda>body.
     bind_result (if \<not> truthy body then Inr True
                  else bind_result (getitem pr ''body'') (\<lambda>b.
                       bind_result (py_len b) (\<lambda>n. Inr (n < 20)))) (\<lambda>poor_description.
     let score = 1;
         score = (if poor_description then fsub score py_0_3 else score)
     in
     bind_result (py_get pr ''review_comments'' (JInt 0)) (\<lambda>review_comments.
     let score = (if eq_zero review_comments then fsub score py_0_2 else score)
     in
     bind_result (py_get pr ''additions'' (JInt 0)) (\<lambda>additions.
     bind_result (py_get pr ''deletions'' (JInt 0)) (\<lambda>deletions.
     bind_result (py_int additions) (\<lambda>a.
     bind_result (py_int deletions) (\<lambda>d.
     let score = (if a + d > 1000 then fsub score py_0_1 else score)
     in Inr (max 0 score))))))))"

definition calculate_file_operation_compliance_score :: "json \<Rightarrow> pyfloat result" where
  "calculate_file_operation_compliance_score event =
     bind_result (getitem event ''type'') (\<lambda>ty.
     if ty = JStr ''PushEvent'' then
       bind_result (py_get event ''payload'' (JObj [])) (\<lambda>payload.
       bind_result (py_get payload ''commits'' (JList [])) (\<lambda>commits.
       bind_result (py_len commits) (\<lambda>commits_count.
       Inr (max 0 (if commits_count > 10 then fsub 1 py_0_2 else 1)))))
     else if ty = JStr ''DeleteEvent'' then Inr (max 0 py_0_8)
     else Inr (max 0 1))"

section \<open>Events and collectors\<close>

text \<open>
  The dataclass \<^verbatim>\<open>ComplianceEvent\<close>. Python does not enforce the annotations of its
  fields: \<open>timestamp\<close>, \<open>user\<close> and \<open>details\<close> hold whatever the provider record holds.
\<close>

record ComplianceEvent =
  timestamp :: json
  event_type :: string
  repository :: string
  user :: json
  details :: json
  compliance_score :: pyfloat

text \<open>
  The outcome of a provider call: \<open>RequestException\<close> when the request, its status check
  or the decoding of its body raises (the collectors catch exactly this class), otherwise
  the decoded JSON array.
\<close>

datatype fetch = RequestException | Records "json list"

text \<open>The \<^verbatim>\<open>for\<close> loop of a collector: the first record that raises ends the loop and
  the exception leaves the collector, since it is not a \<open>RequestException\<close>.\<close>

fun collect :: "(json \<Rightarrow> ComplianceEvent result) \<Rightarrow> json list \<Rightarrow> ComplianceEvent list result" where
  "collect f [] = Inr []"
| "collect f (x # xs) =
     bind_result (f x) (\<lambda>e. bind_result (collect f xs) (\<lambda>es. Inr (e # es)))"

text \<open>Iterating a value: a list gives its elements, a string its characters, a dictionary
  its keys.\<close>

fun py_iter :: "json \<Rightarrow> json list result" where
  "py_iter (JList xs) = Inr xs"
| "py_iter (JStr s) = Inr (map (\<lambda>c. JStr [c]) s)"
| "py_iter (JObj kvs) = Inr (map (\<lambda>kv. JStr (fst kv)) kvs)"
| "py_iter _ = Inl TypeError"

text \<open>\<^verbatim>\<open>sum(f.get(k, 0) for f in files)\<close>, with the running total \<open>acc\<close>.\<close>

fun sum_field :: "string \<Rightarrow> json list \<Rightarrow> int \<Rightarrow> int result" where
  "sum_field k [] acc = Inr acc"
| "sum_field k (f # fs) acc =
     bind_result (py_get f k (JInt 0)) (\<lambda>v.
     bind_result (py_int v) (\<lambda>n. sum_field k fs (acc + n)))"

definition commit_event :: "string \<Rightarrow> json \<Rightarrow> ComplianceEvent result" where
  "commit_event repo_full_name commit =
     bind_result (getitem commit ''commit'') (\<lambda>c.
     bind_result (getitem c ''committer'') (\<lambda>committer.
     bind_result (getitem committer ''date'') (\<lambda>date.
     bind_result (getitem c ''author'') (\<lambda>author.
     bind_result (getitem author ''name'') (\<lambda>name.
     bind_result (getitem commit ''sha'') (\<lambda>sha.
     bind_result (getitem c ''message'') (\<lambda>message.
     bind_result (py_get commit ''files'' (JList [])) (\<lambda>files.
     bind_result (py_len files) (\<lambda>files_changed.
     bind_result (py_iter files) (\<lambda>fs.
     bind_result (sum_field ''additions'' fs 0) (\<lambda>additions.
     bind_result (sum_field ''deletions'' fs 0) (\<lambda>deletions.
     bind_result (calculate_commit_compliance_score commit) (\<lambda>score.
     Inr \<lparr>timestamp = date, event_type = ''commit'', repository = repo_full_name,
          user = name,
          details = JObj [(''sha'', sha), (''message'', message),
                          (''files_changed'', JInt (int files_changed)),
                          (''additions'', JInt additions), (''deletions'', JInt deletions)],
          compliance_score = score\<rparr>)))))))))))))"

definition monitor_commits :: "string \<Rightarrow> fetch \<Rightarrow> ComplianceEvent list result" where
  "monitor_commits repo_full_name response =
     (case response of
        RequestException \<Rightarrow> Inr []
      | Records commits \<Rightarrow> collect (commit_event repo_full_name) commits)"

definition pr_event :: "string \<Rightarrow> json \<Rightarrow> ComplianceEvent result" where
  "pr_event repo_full_name pr =
     bind_result (getitem pr ''created_at'') (\<lambda>created_at.
     bind_result (getitem pr ''user'') (\<lambda>u.
     bind_result (getitem u ''login'') (\<lambda>login.
     bind_result (getitem pr ''number'') (\<lambda>number.
     bind_result (getitem pr ''title'') (\<lambda>title.
     bind_result (getitem pr ''state'') (\<lambda>state.
     bind_result (py_get pr ''merged'' (JBool False)) (\<lambda>merged.
     bind_result (py_get pr ''mergeable'' JNull) (\<lambda>mergeable.
     bind_result (py_get pr ''review_comments'' (JInt 0)) (\<lambda>review_comments.
     bind_result (calculate_pr_compliance_score pr) (\<lambda>score.
     Inr \<lparr>timestamp = created_at, event_type = ''pull_request'',
          repository = repo_full_name, user = login,
          details = JObj [(''number'', number), (''title'', title), (''state'', state),
                          (''merged'', merged), (''mergeable'', mergeable),
                          (''review_comments'', review_comments)],
          compliance_score = score\<rparr>))))))))))"

definition monitor_pull_requests :: "string \<Rightarrow> fetch \<Rightarrow> ComplianceEvent list result" where
  "monitor_pull_requests repo_full_name response =
     (case response of
        RequestException \<Rightarrow> Inr []
      | Records pulls \<Rightarrow> collect (pr_event repo_full_name) pulls)"

text \<open>A repository event gives a compliance event only when its type is one of the three
  file operations; every other event is passed over.\<close>

definition file_operation_event :: "string \<Rightarrow> json \<Rightarrow> ComplianceEvent option result" where
  "file_operation_event repo_full_name event =
     bind_result (getitem event ''type'') (\<lambda>ty.
     if ty \<in> set [JStr ''PushEvent'', JStr ''CreateEvent'', JStr ''DeleteEvent''] then
       bind_result (getitem event ''created_at'') (\<lambda>created_at.
       bind_result (py_lower ty) (\<lambda>lowered.
       bind_result (getitem event ''actor'') (\<lambda>actor.
       bind_result (getitem actor ''login'') (\<lambda>login.
       bind_result (getitem event ''id'') (\<lambda>event_id.
       bind_result (py_get event ''payload'' (JObj [])) (\<lambda>payload.
       bind_result (py_get payload ''ref'' (JStr [])) (\<lambda>ref.
       bind_result (py_get payload ''commits'' (JList [])) (\<lambda>commits.
       bind_result (py_len commits) (\<lambda>commits_count.
       bind_result (calculate_file_operation_compliance_score event) (\<lambda>score.
       Inr (Some \<lparr>timestamp = created_at, event_type = ''file_'' @ lowered,
                  repository = repo_full_name, user = login,
                  details = JObj [(''event_id'', event_id), (''payload'', payload),
                                  (''ref'', ref), (''commits_count'', JInt (int commits_count))],
                  compliance_score = score\<rparr>)))))))))))
     else Inr None)"

fun collect_file_operations :: "string \<Rightarrow> json list \<Rightarrow> ComplianceEvent list result" where
  "collect_file_operations repo_full_name [] = Inr []"
| "collect_file_operations repo_full_name (x # xs) =
     bind_result (file_operation_event repo_full_name x) (\<lambda>oe.
     bind_result (collect_file_operations repo_full_name xs) (\<lambda>es.
     Inr (case oe of None \<Rightarrow> es | Some e \<Rightarrow> e # es)))"

definition monitor_file_operations :: "string \<Rightarrow> fetch \<Rightarrow> ComplianceEvent list result" where
  "monitor_file_operations repo_full_name response =
     (case response of
        RequestException \<Rightarrow> Inr []
      | Records repo_events \<Rightarrow> collect_file_operations repo_full_name repo_events)"

text \<open>
  Branch and tag events are stamped with the clock. \<open>clock i\<close> is the reading of
  \<^verbatim>\<open>datetime.now().isoformat()\<close> at the \<open>i\<close>-th call within one run of
  \<open>monitor_branches_and_tags\<close>.
\<close>

definition branch_event :: "string \<Rightarrow> string \<Rightarrow> json \<Rightarrow> ComplianceEvent result" where
  "branch_event repo_full_name now branch =
     bind_result (getitem branch ''name'') (\<lambda>name.
     bind_result (py_get branch ''protected'' (JBool False)) (\<lambda>protected.
     bind_result (getitem branch ''commit'') (\<lambda>c.
     bind_result (getitem c ''sha'') (\<lambda>sha.
     bind_result (py_get branch ''protected'' JNull) (\<lambda>p.
     Inr \<lparr>timestamp = JStr now, event_type = ''branch_status'',
          repository = repo_full_name, user = JStr ''system'',
          details = JObj [(''name'', name), (''protected'', protected), (''commit_sha'', sha)],
          compliance_score = (if truthy p then 1 else py_0_7)\<rparr>)))))"

definition tag_event :: "string \<Rightarrow> string \<Rightarrow> json \<Rightarrow> ComplianceEvent result" where
  "tag_event repo_full_name now tag =
     bind_result (getitem tag ''name'') (\<lambda>name.
     bind_result (getitem tag ''commit'') (\<lambda>c.
     bind_result (getitem c ''sha'') (\<lambda>sha.
     Inr \<lparr>timestamp = JStr now, event_type = ''tag_status'',
          repository = repo_full_name, user = JStr ''system'',
          details = JObj [(''name'', name), (''commit_sha'', sha)],
          compliance_score = py_0_9\<rparr>)))"

fun collect_clocked ::
  "(string \<Rightarrow> json \<Rightarrow> ComplianceEvent result) \<Rightarrow> (nat \<Rightarrow> string) \<Rightarrow> nat \<Rightarrow> json list
     \<Rightarrow> ComplianceEvent list result" where
  "collect_clocked f clock i [] = Inr []"
| "collect_clocked f clock i (x # xs) =
     bind_result (f (clock i) x) (\<lambda>e.
     bind_result (collect_clocked f clock (Suc i) xs) (\<lambda>es. Inr (e # es)))"

definition monitor_branches_and_tags ::
  "(nat \<Rightarrow> string) \<Rightarrow> string \<Rightarrow> fetch \<Rightarrow> fetch \<Rightarrow> ComplianceEvent list result" where
  "monitor_branches_and_tags clock repo_full_name branches_response tags_response =
     bind_result
       (case branches_response of
          RequestException \<Rightarrow> Inr []
        | Records branches \<Rightarrow> collect_clocked (branch_event repo_full_name) clock 0 branches)
       (\<lambda>branch_events.
     bind_result
       (case tags_response of
          RequestException \<Rightarrow> Inr []
        | Records tags \<Rightarrow>
            collect_clocked (tag_event repo_full_name) clock (length branch_events) tags)
       (\<lambda>tag_events. Inr (branch_events @ tag_events)))"

text \<open>What the provider answers for one resolved repository during a scan.\<close>

record repo_snapshot =
  full_name :: string
  commits_response :: fetch
  pulls_response :: fetch
  events_response :: fetch
  branches_response :: fetch
  tags_response :: fetch
  clock :: "nat \<Rightarrow> string"

definition scan_repository :: "repo_snapshot \<Rightarrow> ComplianceEvent list result" where
  "scan_repository repo =
     bind_result (monitor_commits (full_name repo) (commits_response repo)) (\<lambda>cs.
     bind_result (monitor_pull_requests (full_name repo) (pulls_response repo)) (\<lambda>ps.
     bind_result (monitor_file_operations (full_name repo) (events_response repo)) (\<lambda>fs.
     bind_result (monitor_branches_and_tags (clock repo) (full_name repo)
                    (branches_response repo) (tags_response repo)) (\<lambda>bs.
     Inr (cs @ ps @ fs @ bs)))))"

fun run_comprehensive_scan :: "repo_snapshot list \<Rightarrow> ComplianceEvent list result" where
  "run_comprehensive_scan [] = Inr []"
| "run_comprehensive_scan (repo # repositories) =
     bind_result (scan_repository repo) (\<lambda>es.
     bind_result (run_comprehensive_scan repositories) (\<lambda>rest. Inr (es @ rest)))"

section \<open>Aggregation and report\<close>

text \<open>
  The functions below read \<^verbatim>\<open>self.events\<close>; here the event list is their argument.
  A Python result that is either the empty dictionary \<^verbatim>\<open>{}\<close> or a dictionary with a
  fixed set of keys is an \<open>option\<close> of a record: \<open>None\<close> is \<^verbatim>\<open>{}\<close>.
\<close>

text \<open>\<^verbatim>\<open>sum(xs)\<close> on floats, adding from the left, starting from 0 (as CPython before 3.12
  does; later versions compensate the rounding error of the additions).\<close>

definition py_sum :: "pyfloat list \<Rightarrow> pyfloat" where
  "py_sum xs = foldl fadd 0 xs"

text \<open>\<^verbatim>\<open>x / n\<close> for a float \<open>x\<close> and an integer \<open>n\<close>: the integer is converted first.\<close>

definition fdiv_int :: "pyfloat \<Rightarrow> nat \<Rightarrow> pyfloat" where
  "fdiv_int x n = fdiv x (rnd (of_nat n))"

text \<open>\<^verbatim>\<open>m / n\<close> for two integers: the quotient, rounded once.\<close>

definition int_truediv :: "nat \<Rightarrow> nat \<Rightarrow> pyfloat" where
  "int_truediv m n = rnd (of_nat m / of_nat n)"

subsection \<open>Trends\<close>

text \<open>
  A calendar day is the ordinal of its date. \<open>parse_date s\<close> stands for the library call
  \<^verbatim>\<open>datetime.datetime.fromisoformat(s).date()\<close> and is \<open>None\<close> when the call raises; it is
  a parameter. \<^verbatim>\<open>daily_scores\<close> is a dictionary in insertion order, an association list
  here. The keys of \<^verbatim>\<open>daily_averages\<close> are the ISO strings of the dates, one for each
  date; they are kept as dates.
\<close>

type_synonym date = int

definition replace_Z :: "string \<Rightarrow> string" where
  "replace_Z s = concat (map (\<lambda>c. if c = CHR ''Z'' then ''+00:00'' else [c]) s)"

fun add_score :: "date \<Rightarrow> pyfloat \<Rightarrow> (date \<times> pyfloat list) list \<Rightarrow> (date \<times> pyfloat list) list" where
  "add_score d s [] = [(d, [s])]"
| "add_score d s ((d', ss) # rest) =
     (if d = d' then (d', ss @ [s]) # rest else (d', ss) # add_score d s rest)"

text \<open>The date of an event, or \<open>None\<close> when the body of the \<^verbatim>\<open>try\<close> raises: a timestamp
  that is not a string has no \<^verbatim>\<open>replace\<close>, a string may fail to parse.\<close>

definition event_date :: "(string \<Rightarrow> date option) \<Rightarrow> ComplianceEvent \<Rightarrow> date option" where
  "event_date parse_date event =
     (case timestamp event of JStr s \<Rightarrow> parse_date (replace_Z s) | _ \<Rightarrow> None)"

fun group_by_day ::
  "(string \<Rightarrow> date option) \<Rightarrow> ComplianceEvent list \<Rightarrow> (date \<times> pyfloat list) list
     \<Rightarrow> (date \<times> pyfloat list) list" where
  "group_by_day parse_date [] daily_scores = daily_scores"
| "group_by_day parse_date (event # events) daily_scores =
     group_by_day parse_date events
       (case event_date parse_date event of
          Some d \<Rightarrow> add_score d (compliance_score event) daily_scores
        | None \<Rightarrow> daily_scores)"

record compliance_trends =
  daily_compliance_scores :: "(date \<times> pyfloat) list"
  trend :: string

definition analyze_compliance_trends ::
  "(string \<Rightarrow> date option) \<Rightarrow> ComplianceEvent list \<Rightarrow> compliance_trends" where
  "analyze_compliance_trends parse_date events =
     (let daily_scores = group_by_day parse_date events [];
          daily_averages =
            map (\<lambda>(d, scores). (d, fdiv_int (py_sum scores) (length scores))) daily_scores
      in \<lparr>daily_compliance_scores = daily_averages,
          trend = (if length daily_averages > 1 \<and>
                      snd (last daily_averages) > snd (hd daily_averages)
                   then ''improving'' else ''stable'')\<rparr>)"

subsection \<open>Recommendations\<close>

definition generate_recommendations :: "ComplianceEvent list \<Rightarrow> string list" where
  "generate_recommendations high_risk_events =
     (let commit_issues = filter (\<lambda>e. event_type e = ''commit'') high_risk_events;
          pr_issues = filter (\<lambda>e. event_type e = ''pull_request'') high_risk_events;
          recommendations = [];
          recommendations =
            (if commit_issues \<noteq> [] then recommendations @
               [''Improve commit message quality and follow conventional commit format'',
                ''Consider breaking down large commits into smaller, focused changes'']
             else recommendations);
          recommendations =
            (if pr_issues \<noteq> [] then recommendations @
               [''Ensure all pull requests have detailed descriptions'',
                ''Implement mandatory code reviews for all pull requests'']
             else recommendations)
      in if recommendations = []
         then recommendations @ [''Overall compliance is good. Continue current practices.'']
         else recommendations)"

subsection \<open>Risk tiers\<close>

record 'a risk_tiers =
  high_risk :: 'a
  medium_risk :: 'a
  low_risk :: 'a

record compliance_metrics =
  risk_distribution :: "nat risk_tiers"
  risk_percentages :: "pyfloat risk_tiers"
  compliance_trends :: compliance_trends
  recommendations :: "string list"

definition generate_compliance_metrics ::
  "(string \<Rightarrow> date option) \<Rightarrow> ComplianceEvent list \<Rightarrow> compliance_metrics option" where
  "generate_compliance_metrics parse_date events =
     (let total_events = length events in
      if total_events = 0 then None
      else
        let high_risk_events = filter (\<lambda>e. compliance_score e < py_0_5) events;
            medium_risk_events =
              filter (\<lambda>e. py_0_5 \<le> compliance_score e \<and> compliance_score e < py_0_8)
                events;
            low_risk_events = filter (\<lambda>e. compliance_score e \<ge> py_0_8) events
        in Some
          \<lparr>risk_distribution =
             \<lparr>high_risk = length high_risk_events,
              medium_risk = length medium_risk_events,
              low_risk = length low_risk_events\<rparr>,
           risk_percentages =
             \<lparr>high_risk = fmul (int_truediv (length high_risk_events) total_events) 100,
              medium_risk = fmul (int_truediv (length medium_risk_events) total_events) 100,
              low_risk = fmul (int_truediv (length low_risk_events) total_events) 100\<rparr>,
           compliance_trends = analyze_compliance_trends parse_date events,
           recommendations = generate_recommendations high_risk_events\<rparr>)"

subsection \<open>Summary\<close>

text \<open>
  The three tallies are dictionaries in insertion order. The users are provider values:
  a list or a dictionary cannot be a key (TypeError), and an integer and a boolean of the
  same value are the same key.
\<close>

fun hashable :: "json \<Rightarrow> bool" where
  "hashable (JList xs) = False"
| "hashable (JObj kvs) = False"
| "hashable _ = True"

fun key_eq :: "json \<Rightarrow> json \<Rightarrow> bool" where
  "key_eq (JInt m) (JBool b) = (m = (if b then 1 else 0))"
| "key_eq (JBool b) (JInt m) = (m = (if b then 1 else 0))"
| "key_eq a b = (a = b)"

text \<open>\<^verbatim>\<open>counts[k] += 1\<close> on a \<^verbatim>\<open>defaultdict(int)\<close>.\<close>

fun count_key :: "('k \<Rightarrow> 'k \<Rightarrow> bool) \<Rightarrow> 'k \<Rightarrow> ('k \<times> nat) list \<Rightarrow> ('k \<times> nat) list" where
  "count_key eq k [] = [(k, 1)]"
| "count_key eq k ((k', n) # rest) =
     (if eq k' k then (k', n + 1) # rest else (k', n) # count_key eq k rest)"

record tallies =
  by_type :: "(string \<times> nat) list"
  by_repo :: "(string \<times> nat) list"
  by_user :: "(json \<times> nat) list"

fun tally_events :: "ComplianceEvent list \<Rightarrow> tallies \<Rightarrow> tallies result" where
  "tally_events [] t = Inr t"
| "tally_events (event # events) t =
     (if hashable (user event)
      then tally_events events
             \<lparr>by_type = count_key (=) (event_type event) (by_type t),
              by_repo = count_key (=) (repository event) (by_repo t),
              by_user = count_key key_eq (user event) (by_user t)\<rparr>
      else Inl TypeError)"

record summary =
  events_by_type :: "(string \<times> nat) list"
  events_by_repository :: "(string \<times> nat) list"
  top_contributors :: "(json \<times> nat) list"
  average_compliance_score :: pyfloat

text \<open>\<^verbatim>\<open>sorted(items, key=count, reverse=True)\<close> is stable: items of equal count keep their
  order.\<close>

definition generate_summary :: "ComplianceEvent list \<Rightarrow> summary result" where
  "generate_summary events =
     bind_result (tally_events events \<lparr>by_type = [], by_repo = [], by_user = []\<rparr>) (\<lambda>t.
     Inr \<lparr>events_by_type = by_type t,
          events_by_repository = by_repo t,
          top_contributors = take 10 (rev (sort_key snd (rev (by_user t)))),
          average_compliance_score =
            (if events \<noteq> []
             then fdiv_int (py_sum (map compliance_score events)) (length events)
             else 0)\<rparr>)"

subsection \<open>Report\<close>

text \<open>
  Three things of the surroundings are parameters of \<open>generate_progress_report\<close>: the
  reading \<open>now\<close> of the clock; \<open>sorted_by_timestamp\<close>, the library call
  \<^verbatim>\<open>sorted(events, key=lambda x: x.timestamp, reverse=True)\<close>, which raises when two
  timestamps cannot be compared; and \<open>persist\<close>, the writing of the report to the output
  file, which gives the error it raises, if any.
\<close>

record progress_report =
  generated_at :: string
  scan_period :: string
  total_events :: nat
  repositories_scanned :: nat
  summary :: summary
  compliance_metrics :: "compliance_metrics option"
  detailed_events :: "ComplianceEvent list"

definition generate_progress_report ::
  "string \<Rightarrow> (string \<Rightarrow> date option) \<Rightarrow> (ComplianceEvent list \<Rightarrow> ComplianceEvent list result)
     \<Rightarrow> (progress_report \<Rightarrow> py_error option) \<Rightarrow> ComplianceEvent list
     \<Rightarrow> progress_report option result" where
  "generate_progress_report now parse_date sorted_by_timestamp persist events =
     (if events = [] then Inr None
      else
        bind_result (generate_summary events) (\<lambda>s.
        bind_result (sorted_by_timestamp events) (\<lambda>sorted_events.
        let report =
              \<lparr>generated_at = now,
               scan_period = ''Last 30 days'',
               total_events = length events,
               repositories_scanned = card (set (map repository events)),
               summary = s,
               compliance_metrics = generate_compliance_metrics parse_date events,
               detailed_events = sorted_events\<rparr>
        in case persist report of Some err \<Rightarrow> Inl err | None \<Rightarrow> Inr (Some report))))"

section \<open>Example records\<close>

text \<open>Records holding the fields that the rules read, for the examples.\<close>

definition commit_record :: "string \<Rightarrow> nat \<Rightarrow> json" where
  "commit_record message files_changed =
     JObj [(''commit'', JObj [(''message'', JStr message)]),
           (''files'', JList (replicate files_changed (JObj [])))]"

definition pr_record :: "json \<Rightarrow> int \<Rightarrow> int \<Rightarrow> int \<Rightarrow> json" where
  "pr_record body review_comments additions deletions =
     JObj [(''body'', body), (''review_comments'', JInt review_comments),
           (''additions'', JInt additions), (''deletions'', JInt deletions)]"





text \<open>A branch, a tag and a repository event as the provider lists them.\<close>

definition listed_branch :: "string \<Rightarrow> bool \<Rightarrow> string \<Rightarrow> json" where
  "listed_branch name protected sha =
     JObj [(''name'', JStr name), (''commit'', JObj [(''sha'', JStr sha)]),
           (''protected'', JBool protected)]"

definition listed_tag :: "string \<Rightarrow> string \<Rightarrow> json" where
  "listed_tag name sha = JObj [(''name'', JStr name), (''commit'', JObj [(''sha'', JStr sha)])]"

definition repo_event :: "string \<Rightarrow> string \<Rightarrow> string \<Rightarrow> string \<Rightarrow> nat \<Rightarrow> json" where
  "repo_event ty event_id created_at login commits_count =
     JObj [(''id'', JStr event_id), (''type'', JStr ty),
           (''actor'', JObj [(''login'', JStr login)]), (''created_at'', JStr created_at),
           (''payload'', JObj [(''ref'', JStr ''refs/heads/main''),
                               (''commits'', JList (replicate commits_count (JObj [])))])]"

text \<open>An event with a given kind, timestamp and score, for the examples of aggregation.\<close>

definition example_event :: "string \<Rightarrow> string \<Rightarrow> pyfloat \<Rightarrow> ComplianceEvent" where
  "example_event kind ts score =
     \<lparr>timestamp = JStr ts, event_type = kind, repository = ''octo/demo'',
      user = JStr ''ann'', details = JObj [], compliance_score = score\<rparr>"

text \<open>What \<^verbatim>\<open>datetime.datetime.fromisoformat(s).date()\<close> gives on the two timestamps of the
  examples: 1 March 2024 and 2 March 2024, as ordinals.\<close>

definition example_parse_date :: "string \<Rightarrow> date option" where
  "example_parse_date s =
     (if s = ''2024-03-01T10:00:00+00:00'' then Some 738946
      else if s = ''2024-03-02T10:00:00+00:00'' then Some 738947
      else None)"

section \<open>Auxiliary notions\<close>

text \<open>The fields that the collectors read with \<^verbatim>\<open>record[key]\<close>.\<close>

definition commit_fields_present :: "json \<Rightarrow> bool" where
  "commit_fields_present commit \<longleftrightarrow>
     (case getitem commit ''commit'' of
        Inl _ \<Rightarrow> False
      | Inr c \<Rightarrow>
          (case getitem c ''committer'' of
             Inl _ \<Rightarrow> False | Inr committer \<Rightarrow> \<not> isl (getitem committer ''date'')) \<and>
          (case getitem c ''author'' of
             Inl _ \<Rightarrow> False | Inr author \<Rightarrow> \<not> isl (getitem author ''name'')) \<and>
          \<not> isl (getitem c ''message'')) \<and>
     \<not> isl (getitem commit ''sha'')"



text \<open>What is known of an event by the collector that made it.\<close>

definition scored_by_rule :: "ComplianceEvent \<Rightarrow> bool" where
  "scored_by_rule e \<longleftrightarrow>
     (event_type e = ''commit'' \<and>
        (\<exists>commit. calculate_commit_compliance_score commit = Inr (compliance_score e))) \<or>
     (event_type e = ''pull_request'' \<and>
        (\<exists>pr. calculate_pr_compliance_score pr = Inr (compliance_score e))) \<or>
     (\<exists>event. calculate_file_operation_compliance_score event = Inr (compliance_score e)) \<or>
     compliance_score e = 1 \<or> compliance_score e = py_0_7 \<or> compliance_score e = py_0_9"





section \<open>Facts about the scoring rules\<close>

lemma literal_values:
  "py_0_1 = 3602879701896397 / 36028797018963968"
  "py_0_2 = 3602879701896397 / 18014398509481984"
  "py_0_3 = 5404319552844595 / 18014398509481984"
  "py_0_5 = 1 / 2"
  "py_0_7 = 3152519739159347 / 4503599627370496"
  "py_0_8 = 3602879701896397 / 4503599627370496"
  "py_0_9 = 8106479329266893 / 9007199254740992"
  by code_simp+

text \<open>The values that the successive subtractions of the rules go through.\<close>

lemma score_steps:
  "fsub 1 py_0_3 = 3152519739159347 / 4503599627370496"
  "fsub 1 py_0_2 = 3602879701896397 / 4503599627370496"
  "fsub 1 py_0_1 = 8106479329266893 / 9007199254740992"
  "fsub (3152519739159347 / 4503599627370496) py_0_2 = 9007199254740991 / 18014398509481984"
  "fsub (3152519739159347 / 4503599627370496) py_0_1 = 5404319552844595 / 9007199254740992"
  "fsub (3602879701896397 / 4503599627370496) py_0_2 = 1351079888211149 / 2251799813685248"
  "fsub (3602879701896397 / 4503599627370496) py_0_1 = 6305039478318695 / 9007199254740992"
  "fsub (9007199254740991 / 18014398509481984) py_0_2 = 2702159776422297 / 9007199254740992"
  "fsub (9007199254740991 / 18014398509481984) py_0_1 = 900719925474099 / 2251799813685248"
  by code_simp+

lemma commit_score_cases:
  assumes "calculate_commit_compliance_score commit = Inr s"
  shows "s \<in> {1, 3152519739159347 / 4503599627370496, 3602879701896397 / 4503599627370496,
     9007199254740991 / 18014398509481984, 1351079888211149 / 2251799813685248,
     2702159776422297 / 9007199254740992}"
  using assms
  unfolding calculate_commit_compliance_score_def bind_result_def Let_def
  by (auto split: sum.splits if_splits simp: score_steps)

lemma pr_score_cases:
  assumes "calculate_pr_compliance_score pr = Inr s"
  shows "s \<in> {1, 3152519739159347 / 4503599627370496, 3602879701896397 / 4503599627370496,
     8106479329266893 / 9007199254740992, 5404319552844595 / 9007199254740992,
     9007199254740991 / 18014398509481984, 6305039478318695 / 9007199254740992,
     900719925474099 / 2251799813685248}"
  using assms
  unfolding calculate_pr_compliance_score_def bind_result_def Let_def
  by (auto split: sum.splits if_splits simp: score_steps)

lemma file_operation_score_cases:
  assumes "calculate_file_operation_compliance_score event = Inr s"
  shows "s \<in> {1, 3602879701896397 / 4503599627370496}"
  using assms
  unfolding calculate_file_operation_compliance_score_def bind_result_def Let_def
  by (auto split: sum.splits if_splits simp: score_steps literal_values(6))

lemma py_get_present:
  assumes "py_get j k d = Inr v" and "v \<noteq> d"
  shows "getitem j k = Inr v"
  using assms by (cases j) (auto split: option.splits)

section \<open>Facts about rounding\<close>

text \<open>
  \<open>rnd_error\<close> and \<open>rnd_significand\<close> are the two properties that make \<open>rnd\<close> the
  rounding of binary64 in its normal range: the result is a significand between \<open>2\<^sup>5\<^sup>2\<close>
  and \<open>2\<^sup>5\<^sup>3\<close> times the power of two that belongs to the magnitude of the argument, and
  it is at most half a unit of the last place away from the argument.
\<close>

lemma pow2_powi: "pow2 e = 2 powi e"
  by (simp add: pow2_def power_int_def field_simps)

lemma pow2_pos: "0 < pow2 e"
  by (simp add: pow2_powi)

lemma pow2_diff: "pow2 (e - k) = pow2 e / pow2 k"
  by (simp add: pow2_powi power_int_diff)

lemma pow2_52: "pow2 52 = 2 ^ 52"
  by (simp add: pow2_def)

lemma ilog2_lower:
  assumes "0 < a"
  shows "pow2 (ilog2 a) \<le> a"
proof (cases "1 \<le> a")
  case True
  then have pos: "0 < \<lfloor>a\<rfloor>" by linarith
  from bitlen_bounds[OF pos] have "2 ^ nat (bitlen \<lfloor>a\<rfloor> - 1) \<le> \<lfloor>a\<rfloor>" by simp
  then have "(of_int (2 ^ nat (bitlen \<lfloor>a\<rfloor> - 1)) :: rat) \<le> of_int \<lfloor>a\<rfloor>"
    by (simp only: of_int_le_iff)
  also have "\<dots> \<le> a" by simp
  finally have "(2 :: rat) ^ nat (bitlen \<lfloor>a\<rfloor> - 1) \<le> a" by simp
  moreover have "0 \<le> bitlen \<lfloor>a\<rfloor> - 1"
    using pos by (simp add: bitlen_alt_def)
  ultimately show ?thesis using True by (simp add: ilog2_def pow2_def)
next
  case False
  define c where "c = \<lceil>1 / a\<rceil>"
  define m where "m = bitlen (c - 1)"
  from False assms have "1 < 1 / a" by (simp add: field_simps)
  then have c2: "2 \<le> c" unfolding c_def by linarith
  then have pos: "0 < c - 1" by simp
  from bitlen_bounds[OF pos] have "c - 1 < 2 ^ nat m" by (simp add: m_def)
  then have "c \<le> 2 ^ nat m" by simp
  then have "(of_int c :: rat) \<le> of_int (2 ^ nat m)" by (simp only: of_int_le_iff)
  then have cle: "(of_int c :: rat) \<le> 2 ^ nat m" by simp
  have "1 / a \<le> of_int c" unfolding c_def by simp
  with cle have "1 / a \<le> 2 ^ nat m" by linarith
  with assms have le: "1 / 2 ^ nat m \<le> a"
    by (simp add: field_simps)
  have mpos: "0 < m" using pos by (simp add: m_def bitlen_alt_def)
  have "ilog2 a = - m" using False by (simp add: ilog2_def m_def c_def)
  with mpos le show ?thesis by (simp add: pow2_def)
qed

lemma round_half_even_error: "\<bar>of_int (round_half_even y) - y\<bar> \<le> 1 / 2"
  unfolding round_half_even_def Let_def
  by (auto simp: abs_if; linarith)

lemma rnd_error: "\<bar>rnd x - x\<bar> \<le> \<bar>x\<bar> / 2 ^ 53"
proof (cases "x = 0")
  case True
  then show ?thesis by (simp add: rnd_def)
next
  case False
  define a where "a = \<bar>x\<bar>"
  define u where "u = pow2 (ilog2 a - 52)"
  define n where "n = round_half_even (a / u)"
  have apos: "0 < a" using False by (simp add: a_def)
  have upos: "0 < u" by (simp add: u_def pow2_pos)
  have r: "rnd x = sgn x * of_int n * u"
    using False by (simp add: rnd_def Let_def a_def u_def n_def)
  have x: "x = sgn x * a" by (simp add: a_def abs_sgn mult.commute)
  have "rnd x - x = sgn x * (of_int n * u - a)"
    by (subst x, subst r) (simp add: algebra_simps)
  then have "\<bar>rnd x - x\<bar> = \<bar>of_int n * u - a\<bar>"
    using False by (simp add: abs_mult abs_sgn_eq)
  also have "of_int n * u - a = u * (of_int n - a / u)"
    using upos by (simp add: field_simps)
  also have "\<bar>u * (of_int n - a / u)\<bar> = u * \<bar>of_int n - a / u\<bar>"
    using upos by (simp add: abs_mult)
  also have "\<dots> \<le> u * (1 / 2)"
    using upos round_half_even_error[of "a / u"] by (simp add: n_def)
  also have "u * (1 / 2) = pow2 (ilog2 a) / 2 ^ 53"
    by (simp add: u_def pow2_diff pow2_52)
  also have "\<dots> \<le> a / 2 ^ 53"
    using ilog2_lower[OF apos] by (simp add: divide_right_mono)
  finally show ?thesis by (simp add: a_def)
qed

lemma rnd_nonneg: "0 \<le> x \<Longrightarrow> 0 \<le> rnd x"
proof -
  assume "0 \<le> x"
  have "\<bar>rnd x - x\<bar> \<le> \<bar>x\<bar> / 2 ^ 53" by (rule rnd_error)
  moreover have "\<bar>x\<bar> / 2 ^ 53 \<le> \<bar>x\<bar>" by (simp add: field_simps)
  ultimately show ?thesis using \<open>0 \<le> x\<close> by linarith
qed


lemma rnd_upper: "0 \<le> x \<Longrightarrow> rnd x \<le> x + x / 2 ^ 53"
proof -
  assume "0 \<le> x"
  have "\<bar>rnd x - x\<bar> \<le> \<bar>x\<bar> / 2 ^ 53" by (rule rnd_error)
  with \<open>0 \<le> x\<close> have "\<bar>rnd x - x\<bar> \<le> x / 2 ^ 53" by simp
  then show ?thesis by linarith
qed

lemma ilog2_upper:
  assumes "0 < a"
  shows "a < pow2 (ilog2 a + 1)"
proof (cases "1 \<le> a")
  case True
  then have pos: "0 < \<lfloor>a\<rfloor>" by linarith
  from bitlen_bounds[OF pos] have "\<lfloor>a\<rfloor> + 1 \<le> 2 ^ nat (bitlen \<lfloor>a\<rfloor>)" by simp
  then have "(of_int (\<lfloor>a\<rfloor> + 1) :: rat) \<le> of_int (2 ^ nat (bitlen \<lfloor>a\<rfloor>))"
    by (simp only: of_int_le_iff)
  then have "(of_int \<lfloor>a\<rfloor> + 1 :: rat) \<le> 2 ^ nat (bitlen \<lfloor>a\<rfloor>)" by simp
  moreover have "a < of_int \<lfloor>a\<rfloor> + 1" by linarith
  ultimately have "a < 2 ^ nat (bitlen \<lfloor>a\<rfloor>)" by linarith
  moreover have "0 \<le> bitlen \<lfloor>a\<rfloor>" by (rule bitlen_nonneg)
  ultimately show ?thesis using True by (simp add: ilog2_def pow2_def)
next
  case False
  define c where "c = \<lceil>1 / a\<rceil>"
  define m where "m = bitlen (c - 1)"
  from False assms have "1 < 1 / a" by (simp add: field_simps)
  then have c2: "2 \<le> c" unfolding c_def by linarith
  then have pos: "0 < c - 1" by simp
  have mpos: "0 < m" using pos by (simp add: m_def bitlen_alt_def)
  from bitlen_bounds[OF pos] have "2 ^ nat (m - 1) \<le> c - 1" by (simp add: m_def)
  then have "(of_int (2 ^ nat (m - 1)) :: rat) \<le> of_int (c - 1)" by (simp only: of_int_le_iff)
  then have "(2 ^ nat (m - 1) :: rat) \<le> of_int c - 1" by simp
  moreover have "of_int c - 1 < 1 / a" unfolding c_def by linarith
  ultimately have "(2 ^ nat (m - 1) :: rat) < 1 / a" by linarith
  with assms have lt: "a < 1 / 2 ^ nat (m - 1)" by (simp add: field_simps)
  have e: "ilog2 a = - m" using False by (simp add: ilog2_def m_def c_def)
  show ?thesis
  proof (cases "m = 1")
    case True
    with lt e show ?thesis by (simp add: pow2_def)
  next
    case False
    with mpos have "\<not> 0 \<le> - m + 1" by simp
    moreover have "nat (- (- m + 1)) = nat (m - 1)" by simp
    ultimately show ?thesis using lt e by (simp add: pow2_def)
  qed
qed

lemma round_half_even_bounds: "\<lfloor>y\<rfloor> \<le> round_half_even y \<and> round_half_even y \<le> \<lfloor>y\<rfloor> + 1"
  by (simp add: round_half_even_def Let_def)

text \<open>The result of rounding is a significand of 53 bits times a power of two.\<close>

lemma rnd_significand:
  assumes "x \<noteq> 0"
  shows "\<exists>n. rnd x = sgn x * of_int n * pow2 (ilog2 \<bar>x\<bar> - 52) \<and> 2 ^ 52 \<le> n \<and> n \<le> 2 ^ 53"
proof -
  define a where "a = \<bar>x\<bar>"
  define u where "u = pow2 (ilog2 a - 52)"
  define n where "n = round_half_even (a / u)"
  have apos: "0 < a" using assms by (simp add: a_def)
  have upos: "0 < u" by (simp add: u_def pow2_pos)
  have u: "u = pow2 (ilog2 a) / 2 ^ 52" by (simp add: u_def pow2_diff pow2_52)
  have u1: "pow2 (ilog2 a + 1) = 2 * pow2 (ilog2 a)"
    by (simp add: pow2_powi power_int_add)
  have lo: "2 ^ 52 \<le> a / u"
    using ilog2_lower[OF apos] pow2_pos[of "ilog2 a"] by (simp add: u field_simps)
  have "a < 2 * pow2 (ilog2 a)"
    using ilog2_upper[OF apos] by (simp only: u1)
  then have hi: "a / u < 2 ^ 53"
    using pow2_pos[of "ilog2 a"] by (simp add: u field_simps)
  from lo have "(of_int (2 ^ 52) :: rat) \<le> a / u" by simp
  then have flo: "2 ^ 52 \<le> \<lfloor>a / u\<rfloor>" by (simp only: le_floor_iff)
  from hi have "a / u < (of_int (2 ^ 53) :: rat)" by simp
  then have fhi: "\<lfloor>a / u\<rfloor> < 2 ^ 53" by (simp only: floor_less_iff)
  have "rnd x = sgn x * of_int n * u"
    using assms by (simp add: rnd_def Let_def a_def u_def n_def)
  moreover have "2 ^ 52 \<le> n" "n \<le> 2 ^ 53"
    using round_half_even_bounds[of "a / u"] flo fhi unfolding n_def by linarith+
  ultimately show ?thesis by (auto simp: u_def a_def)
qed

text \<open>The average of a single score.\<close>

lemma rnd_1: "rnd 1 = 1"
  by (simp add: rnd_def ilog2_def pow2_def round_half_even_def bitlen_def floorlog_def)

lemma rnd_literal: "rnd py_0_7 = py_0_7" "rnd py_0_9 = py_0_9"
  by code_simp+

lemma single_average: "fdiv_int (py_sum [s]) (Suc 0) = rnd (rnd s)"
  by (simp add: fdiv_int_def py_sum_def fadd_def fdiv_def rnd_1)

lemma percentage_error:
  fixes h t :: nat
  shows "\<bar>fmul (int_truediv h t) 100 - 100 * (of_nat h / of_nat t)\<bar>
           \<le> (of_nat h / of_nat t) * (201 / 2 ^ 53)"
proof -
  define r :: rat where "r = of_nat h / of_nat t"
  define q where "q = rnd r"
  define p where "p = rnd (q * 100)"
  have r0: "0 \<le> r" by (simp add: r_def)
  have q0: "0 \<le> q" unfolding q_def using r0 by (rule rnd_nonneg)
  have qr: "\<bar>q - r\<bar> \<le> r / 2 ^ 53"
    using rnd_error[of r] r0 by (simp add: q_def)
  have qu: "q \<le> r + r / 2 ^ 53" unfolding q_def using r0 by (rule rnd_upper)
  have "\<bar>p - q * 100\<bar> \<le> \<bar>q * 100\<bar> / 2 ^ 53"
    unfolding p_def by (rule rnd_error)
  then have pq: "\<bar>p - q * 100\<bar> \<le> q * 100 / 2 ^ 53"
    using q0 by (simp add: abs_mult)
  have "q * 100 / 2 ^ 53 \<le> (r + r / 2 ^ 53) * 100 / 2 ^ 53"
    using qu by (simp add: divide_right_mono)
  with pq have pq': "\<bar>p - q * 100\<bar> \<le> (r + r / 2 ^ 53) * 100 / 2 ^ 53" by linarith
  have "p - 100 * r = (p - q * 100) + 100 * (q - r)" by simp
  then have "\<bar>p - 100 * r\<bar> \<le> \<bar>p - q * 100\<bar> + \<bar>100 * (q - r)\<bar>"
    by (simp only: abs_triangle_ineq)
  also have "\<bar>100 * (q - r)\<bar> = 100 * \<bar>q - r\<bar>" by (simp only: abs_mult abs_numeral)
  finally have "\<bar>p - 100 * r\<bar> \<le> \<bar>p - q * 100\<bar> + 100 * \<bar>q - r\<bar>" .
  also have "\<bar>p - q * 100\<bar> + 100 * \<bar>q - r\<bar>
      \<le> (r + r / 2 ^ 53) * 100 / 2 ^ 53 + 100 * (r / 2 ^ 53)"
  proof (rule add_mono)
    show "\<bar>p - q * 100\<bar> \<le> (r + r / 2 ^ 53) * 100 / 2 ^ 53" by (rule pq')
    show "100 * \<bar>q - r\<bar> \<le> 100 * (r / 2 ^ 53)"
      using qr by (intro mult_left_mono) simp_all
  qed
  also have "\<dots> = r * ((200 + 100 / 2 ^ 53) / 2 ^ 53)"
    by (simp add: field_simps)
  also have "\<dots> \<le> r * (201 / 2 ^ 53)"
    using r0 by (intro mult_left_mono) simp_all
  finally show ?thesis by (simp add: p_def q_def r_def fmul_def int_truediv_def)
qed

lemma tier_counts:
  "length (filter (\<lambda>e. compliance_score e < py_0_5) events) +
   length (filter (\<lambda>e. py_0_5 \<le> compliance_score e \<and> compliance_score e < py_0_8) events) +
   length (filter (\<lambda>e. py_0_8 \<le> compliance_score e) events) = length events"
  by (induction events) (auto simp: literal_values)

lemma percentages_sum:
  fixes h m l t :: nat
  assumes "h + m + l = t" and "0 < t"
  shows "\<bar>fmul (int_truediv h t) 100 + fmul (int_truediv m t) 100 +
          fmul (int_truediv l t) 100 - 100\<bar> \<le> 201 / 2 ^ 53"
proof -
  have one: "(of_nat h / of_nat t + of_nat m / of_nat t + of_nat l / of_nat t :: rat) = 1"
  proof -
    have "(of_nat h + of_nat m + of_nat l :: rat) = of_nat t"
      using assms(1) by (metis of_nat_add)
    then show ?thesis using assms(2) by (simp add: add_divide_distrib[symmetric])
  qed
  let ?rh = "of_nat h / of_nat t :: rat" and ?rm = "of_nat m / of_nat t :: rat"
    and ?rl = "of_nat l / of_nat t :: rat"
  have "\<bar>fmul (int_truediv h t) 100 + fmul (int_truediv m t) 100 +
          fmul (int_truediv l t) 100 - 100 * (?rh + ?rm + ?rl)\<bar>
        \<le> ?rh * (201 / 2 ^ 53) + ?rm * (201 / 2 ^ 53) + ?rl * (201 / 2 ^ 53)"
    using percentage_error[of h t] percentage_error[of m t] percentage_error[of l t]
    unfolding distrib_left by linarith
  also have "\<dots> = (?rh + ?rm + ?rl) * (201 / 2 ^ 53)"
    by (simp only: distrib_right)
  finally show ?thesis by (simp only: one)
qed


lemma percentage_nonneg: "0 \<le> fmul (int_truediv h t) 100"
  unfolding fmul_def int_truediv_def
  by (intro rnd_nonneg mult_nonneg_nonneg) simp_all

lemma float_sum_error:
  assumes "0 \<le> a" and "0 \<le> b" and "0 \<le> c" and "\<bar>a + b + c - 100\<bar> \<le> 201 / 2 ^ 53"
  shows "\<bar>fadd (fadd a b) c - 100\<bar> \<le> 405 / 2 ^ 53"
proof -
  define s1 where "s1 = rnd (a + b)"
  define s2 where "s2 = rnd (s1 + c)"
  have "(201 :: rat) / 2 ^ 53 \<le> 1" by simp
  with assms(4) have "\<bar>a + b + c - 100\<bar> \<le> 1" by (rule order_trans)
  then have S: "a + b + c \<le> 101" by linarith
  have ab: "a + b \<le> 101" using S assms(3) by linarith
  have s10: "0 \<le> s1" unfolding s1_def using assms by (intro rnd_nonneg) simp
  have "\<bar>s1 - (a + b)\<bar> \<le> \<bar>a + b\<bar> / 2 ^ 53" unfolding s1_def by (rule rnd_error)
  also have "\<bar>a + b\<bar> / 2 ^ 53 \<le> 101 / 2 ^ 53"
    using ab assms by (intro divide_right_mono) simp_all
  finally have e1: "\<bar>s1 - (a + b)\<bar> \<le> 101 / 2 ^ 53" .
  have "(101 :: rat) / 2 ^ 53 \<le> 1" by simp
  with e1 have "\<bar>s1 - (a + b)\<bar> \<le> 1" by (rule order_trans)
  with S have s1c: "s1 + c \<le> 102" by linarith
  have "\<bar>s2 - (s1 + c)\<bar> \<le> \<bar>s1 + c\<bar> / 2 ^ 53" unfolding s2_def by (rule rnd_error)
  also have "\<bar>s1 + c\<bar> / 2 ^ 53 \<le> 102 / 2 ^ 53"
    using s1c s10 assms by (intro divide_right_mono) simp_all
  finally have e2: "\<bar>s2 - (s1 + c)\<bar> \<le> 102 / 2 ^ 53" .
  have "s2 - 100 = (s2 - (s1 + c)) + (s1 - (a + b)) + (a + b + c - 100)" by simp
  then have "\<bar>s2 - 100\<bar> \<le> \<bar>s2 - (s1 + c)\<bar> + \<bar>s1 - (a + b)\<bar> + \<bar>a + b + c - 100\<bar>"
    by linarith
  also have "\<dots> \<le> 102 / 2 ^ 53 + 101 / 2 ^ 53 + 201 / 2 ^ 53"
    using e1 e2 assms(4) by (intro add_mono)
  finally show ?thesis by (simp add: s2_def s1_def fadd_def)
qed

section \<open>Facts about the collectors\<close>



lemma collect_mem:
  assumes "collect f xs = Inr es" and "e \<in> set es"
  shows "\<exists>x \<in> set xs. f x = Inr e"
  using assms
  by (induction xs arbitrary: es) (auto simp: bind_result_def split: sum.splits)

lemma collect_file_operations_mem:
  assumes "collect_file_operations repo xs = Inr es" and "e \<in> set es"
  shows "\<exists>x \<in> set xs. file_operation_event repo x = Inr (Some e)"
  using assms
  by (induction xs arbitrary: es) (auto simp: bind_result_def split: sum.splits option.splits)

lemma collect_clocked_mem:
  assumes "collect_clocked f clk i xs = Inr es" and "e \<in> set es"
  shows "\<exists>x now. f now x = Inr e"
  using assms
  by (induction xs arbitrary: es i) (fastforce simp: bind_result_def split: sum.splits)+

lemma commit_event_Inr:
  assumes "commit_event repo commit = Inr e"
  shows "event_type e = ''commit'' \<and>
    calculate_commit_compliance_score commit = Inr (compliance_score e)"
  using assms
  by (auto simp: commit_event_def bind_result_def split: sum.splits)

lemma pr_event_Inr:
  assumes "pr_event repo pr = Inr e"
  shows "event_type e = ''pull_request'' \<and>
    calculate_pr_compliance_score pr = Inr (compliance_score e)"
  using assms
  by (auto simp: pr_event_def bind_result_def split: sum.splits)

lemma file_operation_event_Inr:
  assumes "file_operation_event repo event = Inr (Some e)"
  shows "calculate_file_operation_compliance_score event = Inr (compliance_score e)"
  using assms
  by (auto simp: file_operation_event_def bind_result_def split: sum.splits if_splits)

lemma branch_event_Inr:
  assumes "branch_event repo now branch = Inr e"
  shows "compliance_score e = 1 \<or> compliance_score e = py_0_7"
  using assms
  by (auto simp: branch_event_def bind_result_def split: sum.splits if_splits)

lemma tag_event_Inr:
  assumes "tag_event repo now tag = Inr e"
  shows "compliance_score e = py_0_9"
  using assms
  by (auto simp: tag_event_def bind_result_def split: sum.splits)

lemma monitor_commits_scored:
  assumes "monitor_commits repo r = Inr es" and "e \<in> set es"
  shows "scored_by_rule e"
  using assms
  by (auto simp: monitor_commits_def scored_by_rule_def split: fetch.splits
           dest!: collect_mem commit_event_Inr)

lemma monitor_pull_requests_scored:
  assumes "monitor_pull_requests repo r = Inr es" and "e \<in> set es"
  shows "scored_by_rule e"
  using assms
  by (auto simp: monitor_pull_requests_def scored_by_rule_def split: fetch.splits
           dest!: collect_mem pr_event_Inr)

lemma monitor_file_operations_scored:
  assumes "monitor_file_operations repo r = Inr es" and "e \<in> set es"
  shows "scored_by_rule e"
  using assms
  by (auto simp: monitor_file_operations_def scored_by_rule_def split: fetch.splits
           dest!: collect_file_operations_mem file_operation_event_Inr)

lemma monitor_branches_and_tags_scored:
  assumes "monitor_branches_and_tags clk repo rb rt = Inr es" and "e \<in> set es"
  shows "scored_by_rule e"
  using assms
  by (auto simp: monitor_branches_and_tags_def scored_by_rule_def bind_result_def
           split: fetch.splits sum.splits
           dest!: collect_clocked_mem branch_event_Inr tag_event_Inr)

lemma scan_repository_scored:
  assumes "scan_repository repo = Inr es" and "e \<in> set es"
  shows "scored_by_rule e"
  using assms
  by (auto simp: scan_repository_def bind_result_def split: sum.splits
           dest: monitor_commits_scored monitor_pull_requests_scored
                 monitor_file_operations_scored monitor_branches_and_tags_scored)

lemma run_comprehensive_scan_scored:
  assumes "run_comprehensive_scan repos = Inr es" and "e \<in> set es"
  shows "scored_by_rule e"
  using assms
  by (induction repos arbitrary: es)
     (auto simp: bind_result_def split: sum.splits dest: scan_repository_scored)

lemma scored_by_rule_bounds:
  assumes "scored_by_rule e"
  shows "0 \<le> compliance_score e \<and> compliance_score e \<le> 1"
  using assms
  by (auto simp: scored_by_rule_def literal_values
           dest!: commit_score_cases pr_score_cases file_operation_score_cases)

lemma scored_by_rule_other:
  assumes "scored_by_rule e" and "event_type e \<noteq> ''commit''" and "event_type e \<noteq> ''pull_request''"
  shows "py_0_7 \<le> compliance_score e"
  using assms
  by (auto simp: scored_by_rule_def literal_values dest!: file_operation_score_cases)






lemma collector_output_scored:
  assumes "e \<in> set events"
    and "monitor_commits repo r = Inr events \<or>
        monitor_pull_requests repo r = Inr events \<or>
        monitor_file_operations repo r = Inr events \<or>
        monitor_branches_and_tags clk repo r r' = Inr events \<or>
        run_comprehensive_scan repos = Inr events"
  shows "scored_by_rule e"
  using assms(2)
proof (elim disjE)
  assume "monitor_commits repo r = Inr events"
  then show ?thesis using assms(1) by (rule monitor_commits_scored)
next
  assume "monitor_pull_requests repo r = Inr events"
  then show ?thesis using assms(1) by (rule monitor_pull_requests_scored)
next
  assume "monitor_file_operations repo r = Inr events"
  then show ?thesis using assms(1) by (rule monitor_file_operations_scored)
next
  assume "monitor_branches_and_tags clk repo r r' = Inr events"
  then show ?thesis using assms(1) by (rule monitor_branches_and_tags_scored)
next
  assume "run_comprehensive_scan repos = Inr events"
  then show ?thesis using assms(1) by (rule run_comprehensive_scan_scored)
qed

section \<open>The commit rule\<close>

text \<open>
  C3, as the code has it. For a commit whose message is the string \<open>m\<close> and whose file
  list is \<open>fs\<close>, the rule starts at 1.0 and subtracts, in floating-point arithmetic, 0.3
  when \<open>m\<close> has fewer than 10 characters, 0.2 when the lower-cased message contains none of
  the conventional prefixes, and 0.2 when there are more than 20 files; the result is
  clamped at 0.0 and lies within \<open>2\<^sup>-\<^sup>5\<^sup>3\<close> of the exact decimal value. The message
  \<^verbatim>\<open>fix\<close> with 25 files scores \<open>2702159776422297 / 2\<^sup>5\<^sup>3\<close>, which Python prints as
  \<^verbatim>\<open>0.29999999999999993\<close>; the message \<^verbatim>\<open>feat: add widget support for dashboard\<close> with
  3 files scores exactly 1.0.
\<close>

theorem commit_rule_float:
  "(\<forall>commit c m fs.
      getitem commit ''commit'' = Inr c \<and> getitem c ''message'' = Inr (JStr m) \<and>
      py_get commit ''files'' (JList []) = Inr (JList fs) \<longrightarrow>
      (\<exists>s. calculate_commit_compliance_score commit = Inr s \<and>
         s = max 0
              (let s1 = (if length m < 10 then fsub 1 py_0_3 else 1);
                   s2 = (if \<not> list_ex (\<lambda>p. sublist p (str_lower m)) conventional_prefixes
                         then fsub s1 py_0_2 else s1)
               in if 20 < length fs then fsub s2 py_0_2 else s2) \<and>
         \<bar>s - (1 - (if length m < 10 then 3 / 10 else 0)
                  - (if \<not> list_ex (\<lambda>p. sublist p (str_lower m)) conventional_prefixes
                     then 2 / 10 else 0)
                  - (if 20 < length fs then 2 / 10 else 0))\<bar> \<le> 1 / 2 ^ 53)) \<and>
   calculate_commit_compliance_score (commit_record ''fix'' 25) =
     Inr (2702159776422297 / 9007199254740992) \<and>
   calculate_commit_compliance_score
     (commit_record ''feat: add widget support for dashboard'' 3) = Inr 1"
proof (intro conjI allI impI)
  fix commit c m fs
  assume "getitem commit ''commit'' = Inr c \<and> getitem c ''message'' = Inr (JStr m) \<and>
      py_get commit ''files'' (JList []) = Inr (JList fs)"
  then show "\<exists>s. calculate_commit_compliance_score commit = Inr s \<and>
         s = max 0
              (let s1 = (if length m < 10 then fsub 1 py_0_3 else 1);
                   s2 = (if \<not> list_ex (\<lambda>p. sublist p (str_lower m)) conventional_prefixes
                         then fsub s1 py_0_2 else s1)
               in if 20 < length fs then fsub s2 py_0_2 else s2) \<and>
         \<bar>s - (1 - (if length m < 10 then 3 / 10 else 0)
                  - (if \<not> list_ex (\<lambda>p. sublist p (str_lower m)) conventional_prefixes
                     then 2 / 10 else 0)
                  - (if 20 < length fs then 2 / 10 else 0))\<bar> \<le> 1 / 2 ^ 53"
    by (simp add: calculate_commit_compliance_score_def bind_result_def Let_def score_steps)
next
  show "calculate_commit_compliance_score (commit_record ''fix'' 25) =
     Inr (2702159776422297 / 9007199254740992)"
    by (simp add: commit_record_def calculate_commit_compliance_score_def bind_result_def
        score_steps conventional_prefixes_def str_lower_def lower_char_def sublist_Cons_right)
next
  show "calculate_commit_compliance_score
     (commit_record ''feat: add widget support for dashboard'' 3) = Inr 1"
    by (simp add: commit_record_def calculate_commit_compliance_score_def bind_result_def
        score_steps conventional_prefixes_def str_lower_def lower_char_def sublist_Cons_right)
qed

theorem commit_rule_float_witness:
  "getitem (commit_record ''Fix: typo'' 21) ''commit'' = Inr (JObj [(''message'', JStr ''Fix: typo'')]) \<and>
   getitem (JObj [(''message'', JStr ''Fix: typo'')]) ''message'' = Inr (JStr ''Fix: typo'') \<and>
   py_get (commit_record ''Fix: typo'' 21) ''files'' (JList []) = Inr (JList (replicate 21 (JObj []))) \<and>
   calculate_commit_compliance_score (commit_record ''Fix: typo'' 21) =
     Inr (9007199254740991 / 18014398509481984)"
proof -
  have h: "getitem (commit_record ''Fix: typo'' 21) ''commit'' = Inr (JObj [(''message'', JStr ''Fix: typo'')]) \<and>
   getitem (JObj [(''message'', JStr ''Fix: typo'')]) ''message'' = Inr (JStr ''Fix: typo'') \<and>
   py_get (commit_record ''Fix: typo'' 21) ''files'' (JList []) = Inr (JList (replicate 21 (JObj [])))"
    by (simp add: commit_record_def)
  have pre: "list_ex (\<lambda>p. sublist p (str_lower ''Fix: typo'')) conventional_prefixes"
    by code_simp
  from commit_rule_float h
  have "\<exists>s. calculate_commit_compliance_score (commit_record ''Fix: typo'' 21) = Inr s \<and>
         s = max 0
              (let s1 = (if length ''Fix: typo'' < 10 then fsub 1 py_0_3 else 1);
                   s2 = (if \<not> list_ex (\<lambda>p. sublist p (str_lower ''Fix: typo'')) conventional_prefixes
                         then fsub s1 py_0_2 else s1)
               in if 20 < length (replicate 21 (JObj [])) then fsub s2 py_0_2 else s2) \<and>
         \<bar>s - (1 - (if length ''Fix: typo'' < 10 then 3 / 10 else 0)
                  - (if \<not> list_ex (\<lambda>p. sublist p (str_lower ''Fix: typo'')) conventional_prefixes
                     then 2 / 10 else 0)
                  - (if 20 < length (replicate 21 (JObj [])) then 2 / 10 else 0))\<bar> \<le> 1 / 2 ^ 53"
    by blast
  then have "calculate_commit_compliance_score (commit_record ''Fix: typo'' 21) =
     Inr (9007199254740991 / 18014398509481984)"
    using pre by (auto simp: Let_def score_steps)
  with h show ?thesis by blast
qed

text \<open>The score of the message \<^verbatim>\<open>fix\<close> with 25 files is neither the double \<^verbatim>\<open>0.3\<close> nor the
  number \<open>3 / 10\<close>.\<close>

theorem commit_fix_25_not_0_3:
  "calculate_commit_compliance_score (commit_record ''fix'' 25) \<noteq> Inr py_0_3 \<and>
   calculate_commit_compliance_score (commit_record ''fix'' 25) \<noteq> Inr (3 / 10)"
proof -
  have "calculate_commit_compliance_score (commit_record ''fix'' 25) =
     Inr (2702159776422297 / 9007199254740992)"
    by (simp add: commit_record_def calculate_commit_compliance_score_def bind_result_def
        score_steps conventional_prefixes_def str_lower_def lower_char_def sublist_Cons_right)
  then show ?thesis by (simp add: literal_values)
qed

section \<open>The pull-request rule\<close>

text \<open>
  C4, as the code has it. For a pull request whose description is absent, null or a
  string, and whose counts are integers, the rule starts at 1.0 and subtracts, in
  floating-point arithmetic, 0.3 when the description is absent, null or shorter than 20
  characters, 0.2 when \<^verbatim>\<open>review_comments\<close> is 0, and 0.1 when additions plus deletions
  exceed 1000; the result is clamped at 0.0 and lies within \<open>2\<^sup>-\<^sup>5\<^sup>3\<close> of the exact
  decimal value. A pull request with no description, no review comment and 1500 changed
  lines scores \<open>900719925474099 / 2\<^sup>5\<^sup>1\<close>, which Python prints as \<^verbatim>\<open>0.3999999999999999\<close>.
\<close>

theorem pr_rule_float:
  "(\<forall>pr body d r a dl.
      py_get pr ''body'' JNull = Inr body \<and> (body = JNull \<or> body = JStr d) \<and>
      py_get pr ''review_comments'' (JInt 0) = Inr (JInt r) \<and>
      py_get pr ''additions'' (JInt 0) = Inr (JInt a) \<and>
      py_get pr ''deletions'' (JInt 0) = Inr (JInt dl) \<longrightarrow>
      (\<exists>s. calculate_pr_compliance_score pr = Inr s \<and>
         s = max 0
              (let s1 = (if body = JNull \<or> length d < 20 then fsub 1 py_0_3 else 1);
                   s2 = (if r = 0 then fsub s1 py_0_2 else s1)
               in if a + dl > 1000 then fsub s2 py_0_1 else s2) \<and>
         \<bar>s - (1 - (if body = JNull \<or> length d < 20 then 3 / 10 else 0)
                  - (if r = 0 then 2 / 10 else 0)
                  - (if a + dl > 1000 then 1 / 10 else 0))\<bar> \<le> 1 / 2 ^ 53)) \<and>
   calculate_pr_compliance_score (pr_record JNull 0 1000 500) =
     Inr (900719925474099 / 2251799813685248)"
proof (intro conjI allI impI)
  fix pr body d r a dl
  assume h: "py_get pr ''body'' JNull = Inr body \<and> (body = JNull \<or> body = JStr d) \<and>
      py_get pr ''review_comments'' (JInt 0) = Inr (JInt r) \<and>
      py_get pr ''additions'' (JInt 0) = Inr (JInt a) \<and>
      py_get pr ''deletions'' (JInt 0) = Inr (JInt dl)"
  have g: "getitem pr ''body'' = Inr body" if "body \<noteq> JNull"
    using h that py_get_present by blast
  from h consider "body = JNull" | "body = JStr d" by blast
  then show "\<exists>s. calculate_pr_compliance_score pr = Inr s \<and>
         s = max 0
              (let s1 = (if body = JNull \<or> length d < 20 then fsub 1 py_0_3 else 1);
                   s2 = (if r = 0 then fsub s1 py_0_2 else s1)
               in if a + dl > 1000 then fsub s2 py_0_1 else s2) \<and>
         \<bar>s - (1 - (if body = JNull \<or> length d < 20 then 3 / 10 else 0)
                  - (if r = 0 then 2 / 10 else 0)
                  - (if a + dl > 1000 then 1 / 10 else 0))\<bar> \<le> 1 / 2 ^ 53"
  proof cases
    case 1
    with h show ?thesis
      by (simp add: calculate_pr_compliance_score_def bind_result_def Let_def score_steps)
  next
    case 2
    with h g show ?thesis
      by (cases "d = []")
         (simp_all add: calculate_pr_compliance_score_def bind_result_def Let_def score_steps)
  qed
next
  show "calculate_pr_compliance_score (pr_record JNull 0 1000 500) =
     Inr (900719925474099 / 2251799813685248)"
    by (simp add: pr_record_def calculate_pr_compliance_score_def bind_result_def score_steps)
qed

theorem pr_rule_float_witness:
  "py_get (pr_record (JStr ''Adds the export endpoint'') 2 10 5) ''body'' JNull =
     Inr (JStr ''Adds the export endpoint'') \<and>
   py_get (pr_record (JStr ''Adds the export endpoint'') 2 10 5) ''review_comments'' (JInt 0) =
     Inr (JInt 2) \<and>
   py_get (pr_record (JStr ''Adds the export endpoint'') 2 10 5) ''additions'' (JInt 0) =
     Inr (JInt 10) \<and>
   py_get (pr_record (JStr ''Adds the export endpoint'') 2 10 5) ''deletions'' (JInt 0) =
     Inr (JInt 5) \<and>
   calculate_pr_compliance_score (pr_record (JStr ''Adds the export endpoint'') 2 10 5) = Inr 1"
proof -
  let ?pr = "pr_record (JStr ''Adds the export endpoint'') 2 10 5"
  have h: "py_get ?pr ''body'' JNull = Inr (JStr ''Adds the export endpoint'') \<and>
     (JStr ''Adds the export endpoint'' = JNull \<or>
      JStr ''Adds the export endpoint'' = JStr ''Adds the export endpoint'') \<and>
     py_get ?pr ''review_comments'' (JInt 0) = Inr (JInt 2) \<and>
     py_get ?pr ''additions'' (JInt 0) = Inr (JInt 10) \<and>
     py_get ?pr ''deletions'' (JInt 0) = Inr (JInt 5)"
    by (simp add: pr_record_def)
  from pr_rule_float have "\<forall>pr body d r a dl.
      py_get pr ''body'' JNull = Inr body \<and> (body = JNull \<or> body = JStr d) \<and>
      py_get pr ''review_comments'' (JInt 0) = Inr (JInt r) \<and>
      py_get pr ''additions'' (JInt 0) = Inr (JInt a) \<and>
      py_get pr ''deletions'' (JInt 0) = Inr (JInt dl) \<longrightarrow>
      (\<exists>s. calculate_pr_compliance_score pr = Inr s \<and>
         s = max 0
              (let s1 = (if body = JNull \<or> length d < 20 then fsub 1 py_0_3 else 1);
                   s2 = (if r = 0 then fsub s1 py_0_2 else s1)
               in if a + dl > 1000 then fsub s2 py_0_1 else s2) \<and>
         \<bar>s - (1 - (if body = JNull \<or> length d < 20 then 3 / 10 else 0)
                  - (if r = 0 then 2 / 10 else 0)
                  - (if a + dl > 1000 then 1 / 10 else 0))\<bar> \<le> 1 / 2 ^ 53)"
    by (rule conjunct1)
  from this[rule_format, OF h]
  have "calculate_pr_compliance_score ?pr = Inr 1"
    by (simp add: Let_def)
  with h show ?thesis by blast
qed

text \<open>The score of that pull request is neither the double \<^verbatim>\<open>0.4\<close> nor the number
  \<open>4 / 10\<close>.\<close>

theorem pr_unreviewed_large_not_0_4:
  "calculate_pr_compliance_score (pr_record JNull 0 1000 500) \<noteq> Inr (rnd (4 / 10)) \<and>
   calculate_pr_compliance_score (pr_record JNull 0 1000 500) \<noteq> Inr (4 / 10)"
proof -
  have "calculate_pr_compliance_score (pr_record JNull 0 1000 500) =
     Inr (900719925474099 / 2251799813685248)"
    by (simp add: pr_record_def calculate_pr_compliance_score_def bind_result_def score_steps)
  moreover have "rnd (4 / 10) = 3602879701896397 / 9007199254740992"
    by code_simp
  ultimately show ?thesis by simp
qed

section \<open>Deletions\<close>

text \<open>
  C5. Every repository event whose type is \<^verbatim>\<open>DeleteEvent\<close> scores exactly the float
  \<^verbatim>\<open>0.8\<close>, whatever else the record holds; the payload is not read. The event that the
  collector makes of such a record carries that score.
\<close>

theorem delete_event_scores_0_8:
  assumes "getitem event ''type'' = Inr (JStr ''DeleteEvent'')"
  shows "calculate_file_operation_compliance_score event = Inr py_0_8 \<and>
    (\<forall>repo e. file_operation_event repo event = Inr (Some e) \<longrightarrow> compliance_score e = py_0_8)"
proof -
  have "(0::rat) \<le> py_0_8" by (simp add: literal_values)
  then have s: "calculate_file_operation_compliance_score event = Inr py_0_8"
    using assms by (simp add: calculate_file_operation_compliance_score_def bind_result_def)
  have "compliance_score e = py_0_8" if "file_operation_event repo event = Inr (Some e)" for repo e
    using that assms s
    by (auto simp: file_operation_event_def bind_result_def split: sum.splits if_splits)
  with s show ?thesis by blast
qed

theorem delete_event_scores_0_8_witness:
  "getitem (JObj [(''type'', JStr ''DeleteEvent''),
                  (''payload'', JObj [(''commits'', JList (replicate 50 JNull))])]) ''type'' =
     Inr (JStr ''DeleteEvent'') \<and>
   calculate_file_operation_compliance_score
     (JObj [(''type'', JStr ''DeleteEvent''),
            (''payload'', JObj [(''commits'', JList (replicate 50 JNull))])]) = Inr py_0_8"
  using delete_event_scores_0_8
    [of "JObj [(''type'', JStr ''DeleteEvent''),
               (''payload'', JObj [(''commits'', JList (replicate 50 JNull))])]"]
  by simp

section \<open>Bounds of the scores\<close>

text \<open>
  C1. Every score that a scoring rule returns, and the score of every event that a
  collector or a whole scan returns, lies between 0.0 and 1.0.
\<close>

theorem compliance_score_in_unit_interval:
  assumes "calculate_commit_compliance_score x = Inr s \<or>
     calculate_pr_compliance_score x = Inr s \<or>
     calculate_file_operation_compliance_score x = Inr s \<or>
     (e \<in> set events \<and> compliance_score e = s \<and>
       (monitor_commits repo r = Inr events \<or>
        monitor_pull_requests repo r = Inr events \<or>
        monitor_file_operations repo r = Inr events \<or>
        monitor_branches_and_tags clk repo r r' = Inr events \<or>
        run_comprehensive_scan repos = Inr events))"
  shows "0 \<le> s \<and> s \<le> 1"
proof -
  from assms consider
      "calculate_commit_compliance_score x = Inr s"
    | "calculate_pr_compliance_score x = Inr s"
    | "calculate_file_operation_compliance_score x = Inr s"
    | "e \<in> set events \<and> compliance_score e = s \<and>
       (monitor_commits repo r = Inr events \<or>
        monitor_pull_requests repo r = Inr events \<or>
        monitor_file_operations repo r = Inr events \<or>
        monitor_branches_and_tags clk repo r r' = Inr events \<or>
        run_comprehensive_scan repos = Inr events)"
    by argo
  then show ?thesis
  proof cases
    case 1
    then show ?thesis using commit_score_cases by fastforce
  next
    case 2
    then show ?thesis using pr_score_cases by fastforce
  next
    case 3
    then show ?thesis using file_operation_score_cases by fastforce
  next
    case 4
    then have "scored_by_rule e" using collector_output_scored by blast
    with 4 show ?thesis using scored_by_rule_bounds by blast
  qed
qed

theorem compliance_score_in_unit_interval_witness:
  "monitor_branches_and_tags (\<lambda>i. ''2024-03-05T12:00:00.000000'') ''octo/demo''
     (Records [listed_branch ''main'' False ''a1'']) (Records [listed_tag ''v1'' ''a1'']) =
   Inr [\<lparr>timestamp = JStr ''2024-03-05T12:00:00.000000'', event_type = ''branch_status'',
          repository = ''octo/demo'', user = JStr ''system'',
          details = JObj [(''name'', JStr ''main''), (''protected'', JBool False),
                          (''commit_sha'', JStr ''a1'')],
          compliance_score = py_0_7\<rparr>,
        \<lparr>timestamp = JStr ''2024-03-05T12:00:00.000000'', event_type = ''tag_status'',
          repository = ''octo/demo'', user = JStr ''system'',
          details = JObj [(''name'', JStr ''v1''), (''commit_sha'', JStr ''a1'')],
          compliance_score = py_0_9\<rparr>] \<and>
   0 \<le> py_0_7 \<and> py_0_7 \<le> 1"
proof -
  let ?b = "\<lparr>timestamp = JStr ''2024-03-05T12:00:00.000000'', event_type = ''branch_status'',
          repository = ''octo/demo'', user = JStr ''system'',
          details = JObj [(''name'', JStr ''main''), (''protected'', JBool False),
                          (''commit_sha'', JStr ''a1'')],
          compliance_score = py_0_7\<rparr>"
  let ?t = "\<lparr>timestamp = JStr ''2024-03-05T12:00:00.000000'', event_type = ''tag_status'',
          repository = ''octo/demo'', user = JStr ''system'',
          details = JObj [(''name'', JStr ''v1''), (''commit_sha'', JStr ''a1'')],
          compliance_score = py_0_9\<rparr>"
  have run: "monitor_branches_and_tags (\<lambda>i. ''2024-03-05T12:00:00.000000'') ''octo/demo''
     (Records [listed_branch ''main'' False ''a1'']) (Records [listed_tag ''v1'' ''a1'']) =
     Inr [?b, ?t]"
    by (simp add: monitor_branches_and_tags_def branch_event_def tag_event_def bind_result_def
        listed_branch_def listed_tag_def)
  have "0 \<le> py_0_7 \<and> py_0_7 \<le> 1"
    using run compliance_score_in_unit_interval
      [of undefined py_0_7 ?b "[?b, ?t]" "''octo/demo''" "Records [listed_branch ''main'' False ''a1'']"
          "\<lambda>i. ''2024-03-05T12:00:00.000000''" "Records [listed_tag ''v1'' ''a1'']" "[]"]
    by simp
  with run show ?thesis by blast
qed

section \<open>Risk tiers\<close>

text \<open>
  C2. For a non-empty event set the metrics exist; each event is in exactly one of the
  three tiers; the three counts are the sizes of the tiers and add up to the number of
  events; each percentage is its count divided by the total and multiplied by 100, in
  floating-point arithmetic; the three percentages add up to 100 within \<open>10\<^sup>-\<^sup>1\<^sup>3\<close>,
  whether they are added exactly or with the floating-point addition.
\<close>

theorem risk_tiers_partition:
  assumes "events \<noteq> []"
  shows "\<exists>m. generate_compliance_metrics parse_date events = Some m \<and>
    list_all (\<lambda>e. (if compliance_score e < py_0_5 then 1 else 0) +
                   (if py_0_5 \<le> compliance_score e \<and> compliance_score e < py_0_8 then 1 else 0) +
                   (if py_0_8 \<le> compliance_score e then 1 else 0) = (1 :: nat)) events \<and>
    high_risk (risk_distribution m) =
      length (filter (\<lambda>e. compliance_score e < py_0_5) events) \<and>
    medium_risk (risk_distribution m) =
      length (filter (\<lambda>e. py_0_5 \<le> compliance_score e \<and> compliance_score e < py_0_8) events) \<and>
    low_risk (risk_distribution m) =
      length (filter (\<lambda>e. py_0_8 \<le> compliance_score e) events) \<and>
    high_risk (risk_distribution m) + medium_risk (risk_distribution m) +
      low_risk (risk_distribution m) = length events \<and>
    high_risk (risk_percentages m) =
      fmul (int_truediv (high_risk (risk_distribution m)) (length events)) 100 \<and>
    medium_risk (risk_percentages m) =
      fmul (int_truediv (medium_risk (risk_distribution m)) (length events)) 100 \<and>
    low_risk (risk_percentages m) =
      fmul (int_truediv (low_risk (risk_distribution m)) (length events)) 100 \<and>
    \<bar>high_risk (risk_percentages m) + medium_risk (risk_percentages m) +
      low_risk (risk_percentages m) - 100\<bar> \<le> 1 / 10 ^ 13 \<and>
    \<bar>fadd (fadd (high_risk (risk_percentages m)) (medium_risk (risk_percentages m)))
        (low_risk (risk_percentages m)) - 100\<bar> \<le> 1 / 10 ^ 13"
proof -
  let ?h = "length (filter (\<lambda>e. compliance_score e < py_0_5) events)"
  let ?m = "length (filter (\<lambda>e. py_0_5 \<le> compliance_score e \<and> compliance_score e < py_0_8) events)"
  let ?l = "length (filter (\<lambda>e. py_0_8 \<le> compliance_score e) events)"
  let ?t = "length events"
  let ?ph = "fmul (int_truediv ?h ?t) 100"
  let ?pm = "fmul (int_truediv ?m ?t) 100"
  let ?pl = "fmul (int_truediv ?l ?t) 100"
  define m where "m =
    \<lparr>risk_distribution = \<lparr>high_risk = ?h, medium_risk = ?m, low_risk = ?l\<rparr>,
     risk_percentages = \<lparr>high_risk = ?ph, medium_risk = ?pm, low_risk = ?pl\<rparr>,
     compliance_trends = analyze_compliance_trends parse_date events,
     recommendations =
       generate_recommendations (filter (\<lambda>e. compliance_score e < py_0_5) events)\<rparr>"
  have t: "0 < ?t" using assms by simp
  have metrics: "generate_compliance_metrics parse_date events = Some m"
    using assms by (simp add: generate_compliance_metrics_def Let_def m_def)
  have counts: "?h + ?m + ?l = ?t" by (rule tier_counts)
  have one: "list_all (\<lambda>e. (if compliance_score e < py_0_5 then 1 else 0) +
                   (if py_0_5 \<le> compliance_score e \<and> compliance_score e < py_0_8 then 1 else 0) +
                   (if py_0_8 \<le> compliance_score e then 1 else 0) = (1 :: nat)) events"
    by (auto simp: list_all_iff literal_values)
  have exact: "\<bar>?ph + ?pm + ?pl - 100\<bar> \<le> 201 / 2 ^ 53"
    using counts t by (rule percentages_sum)
  have float: "\<bar>fadd (fadd ?ph ?pm) ?pl - 100\<bar> \<le> 405 / 2 ^ 53"
    using percentage_nonneg percentage_nonneg percentage_nonneg exact by (rule float_sum_error)
  have b1: "(201 :: rat) / 2 ^ 53 \<le> 1 / 10 ^ 13" by simp
  have b2: "(405 :: rat) / 2 ^ 53 \<le> 1 / 10 ^ 13" by simp
  from exact b1 have exact': "\<bar>?ph + ?pm + ?pl - 100\<bar> \<le> 1 / 10 ^ 13" by (rule order_trans)
  from float b2 have float': "\<bar>fadd (fadd ?ph ?pm) ?pl - 100\<bar> \<le> 1 / 10 ^ 13"
    by (rule order_trans)
  show ?thesis
  proof (intro exI[of _ m] conjI)
    show "generate_compliance_metrics parse_date events = Some m" by (rule metrics)
    show "list_all (\<lambda>e. (if compliance_score e < py_0_5 then 1 else 0) +
                   (if py_0_5 \<le> compliance_score e \<and> compliance_score e < py_0_8 then 1 else 0) +
                   (if py_0_8 \<le> compliance_score e then 1 else 0) = (1 :: nat)) events"
      by (rule one)
    show "high_risk (risk_distribution m) = ?h" by (simp add: m_def)
    show "medium_risk (risk_distribution m) = ?m" by (simp add: m_def)
    show "low_risk (risk_distribution m) = ?l" by (simp add: m_def)
    show "high_risk (risk_distribution m) + medium_risk (risk_distribution m) +
      low_risk (risk_distribution m) = ?t"
      using counts by (simp add: m_def)
    show "high_risk (risk_percentages m) =
      fmul (int_truediv (high_risk (risk_distribution m)) ?t) 100"
      by (simp add: m_def)
    show "medium_risk (risk_percentages m) =
      fmul (int_truediv (medium_risk (risk_distribution m)) ?t) 100"
      by (simp add: m_def)
    show "low_risk (risk_percentages m) =
      fmul (int_truediv (low_risk (risk_distribution m)) ?t) 100"
      by (simp add: m_def)
    show "\<bar>high_risk (risk_percentages m) + medium_risk (risk_percentages m) +
      low_risk (risk_percentages m) - 100\<bar> \<le> 1 / 10 ^ 13"
      using exact' by (simp add: m_def)
    show "\<bar>fadd (fadd (high_risk (risk_percentages m)) (medium_risk (risk_percentages m)))
        (low_risk (risk_percentages m)) - 100\<bar> \<le> 1 / 10 ^ 13"
      using float' by (simp add: m_def)
  qed
qed

theorem risk_tiers_partition_witness:
  "[example_event ''commit'' ''2024-03-01T10:00:00Z'' (2702159776422297 / 9007199254740992),
    example_event ''branch_status'' ''2024-03-02T10:00:00Z'' py_0_7,
    example_event ''tag_status'' ''2024-03-02T10:00:00Z'' py_0_9] \<noteq> [] \<and>
   (\<exists>m. generate_compliance_metrics example_parse_date
      [example_event ''commit'' ''2024-03-01T10:00:00Z'' (2702159776422297 / 9007199254740992),
       example_event ''branch_status'' ''2024-03-02T10:00:00Z'' py_0_7,
       example_event ''tag_status'' ''2024-03-02T10:00:00Z'' py_0_9] = Some m \<and>
      high_risk (risk_distribution m) + medium_risk (risk_distribution m) +
        low_risk (risk_distribution m) = 3)"
proof -
  let ?events =
    "[example_event ''commit'' ''2024-03-01T10:00:00Z'' (2702159776422297 / 9007199254740992),
      example_event ''branch_status'' ''2024-03-02T10:00:00Z'' py_0_7,
      example_event ''tag_status'' ''2024-03-02T10:00:00Z'' py_0_9]"
  have ne: "?events \<noteq> []" by simp
  from risk_tiers_partition[OF ne, of example_parse_date]
  obtain m where "generate_compliance_metrics example_parse_date ?events = Some m"
    and "high_risk (risk_distribution m) + medium_risk (risk_distribution m) +
      low_risk (risk_distribution m) = length ?events"
    by blast
  then show ?thesis by auto
qed

section \<open>Trend\<close>

text \<open>
  C6, on the code. The days are compared in the order in which the event list first
  meets them, not in the order of the calendar. With one event on 2 March scoring 0.9
  followed by one on 1 March scoring 0.7, as a provider lists them, newest first, the
  latest day has the higher average and the trend is \<^verbatim>\<open>stable\<close>; with the two scores
  exchanged the latest day has the lower average and the trend is \<^verbatim>\<open>improving\<close>.
\<close>

theorem trend_compares_days_in_encounter_order:
  "analyze_compliance_trends example_parse_date
     [example_event ''commit'' ''2024-03-02T10:00:00Z'' py_0_9,
      example_event ''commit'' ''2024-03-01T10:00:00Z'' py_0_7] =
     \<lparr>daily_compliance_scores = [(738947, py_0_9), (738946, py_0_7)], trend = ''stable''\<rparr> \<and>
   analyze_compliance_trends example_parse_date
     [example_event ''commit'' ''2024-03-02T10:00:00Z'' py_0_7,
      example_event ''commit'' ''2024-03-01T10:00:00Z'' py_0_9] =
     \<lparr>daily_compliance_scores = [(738947, py_0_7), (738946, py_0_9)], trend = ''improving''\<rparr> \<and>
   py_0_7 < py_0_9"
proof -
  have lt: "py_0_7 < py_0_9" by (simp add: literal_values)
  have d1: "event_date example_parse_date (example_event k ''2024-03-01T10:00:00Z'' s) = Some 738946"
    and d2: "event_date example_parse_date (example_event k ''2024-03-02T10:00:00Z'' s) = Some 738947"
    for k s
    by (simp_all add: event_date_def example_event_def example_parse_date_def replace_Z_def)
  have s: "compliance_score (example_event k t s) = s" for k t s
    by (simp add: example_event_def)
  show ?thesis
    using lt by (simp add: analyze_compliance_trends_def d1 d2 s single_average rnd_literal)
qed











section \<open>Records without a required field\<close>

lemma required_fields_do_not_suffice:
  "commit_fields_present
     (JObj [(''sha'', JStr ''a1''),
            (''commit'', JObj [(''message'', JNull), (''author'', JObj [(''name'', JStr ''Ann'')]),
                               (''committer'', JObj [(''date'', JStr ''2024-03-01T10:00:00Z'')])])]) \<and>
   monitor_commits ''octo/demo''
     (Records [JObj [(''sha'', JStr ''a1''),
            (''commit'', JObj [(''message'', JNull), (''author'', JObj [(''name'', JStr ''Ann'')]),
                               (''committer'', JObj [(''date'', JStr ''2024-03-01T10:00:00Z'')])])]]) =
     Inl AttributeError"
  by (simp add: commit_fields_present_def monitor_commits_def commit_event_def bind_result_def
      calculate_commit_compliance_score_def)




section \<open>The empty event set\<close>

text \<open>
  C8. With no event, report generation returns the empty report \<^verbatim>\<open>{}\<close> without raising
  and without sorting or writing anything; the metrics are the empty dictionary, the
  tallies of the summary are empty and its average is 0, no day has an average and the
  trend is \<^verbatim>\<open>stable\<close>.
\<close>

theorem empty_event_set_empty_report:
  "generate_progress_report now parse_date sorted_by_timestamp persist [] = Inr None \<and>
   generate_compliance_metrics parse_date [] = None \<and>
   generate_summary [] =
     Inr \<lparr>events_by_type = [], events_by_repository = [], top_contributors = [],
          average_compliance_score = 0\<rparr> \<and>
   analyze_compliance_trends parse_date [] =
     \<lparr>daily_compliance_scores = [], trend = ''stable''\<rparr>"
  by (simp add: generate_progress_report_def generate_compliance_metrics_def
      generate_summary_def analyze_compliance_trends_def bind_result_def)

theorem empty_event_set_empty_report_witness:
  "generate_progress_report ''2024-03-05T12:00:00'' (\<lambda>s. None) (\<lambda>es. Inl TypeError)
     (\<lambda>r. Some OSError) [] = Inr None \<and>
   generate_compliance_metrics (\<lambda>s. None) [] = None"
  using empty_event_set_empty_report
    [of "''2024-03-05T12:00:00''" "\<lambda>s. None" "\<lambda>es. Inl TypeError" "\<lambda>r. Some OSError"]
  by simp

section \<open>Recommendations\<close>

text \<open>
  C9. The recommendations for a list of high-risk events are the two messages on commits
  when the list holds a commit event, followed by the two messages on pull requests when
  it holds a pull-request event; when it holds neither, they are the one general message.
\<close>

theorem recommendations_by_kind:
  "generate_recommendations high_risk_events =
     (if list_ex (\<lambda>e. event_type e = ''commit'') high_risk_events then
        [''Improve commit message quality and follow conventional commit format'',
         ''Consider breaking down large commits into smaller, focused changes'']
      else []) @
     (if list_ex (\<lambda>e. event_type e = ''pull_request'') high_risk_events then
        [''Ensure all pull requests have detailed descriptions'',
         ''Implement mandatory code reviews for all pull requests'']
      else []) @
     (if list_ex (\<lambda>e. event_type e = ''commit'' \<or> event_type e = ''pull_request'')
           high_risk_events
      then [] else [''Overall compliance is good. Continue current practices.''])"
  by (auto simp: generate_recommendations_def Let_def list_ex_iff filter_empty_conv)

theorem recommendations_by_kind_witness:
  "generate_recommendations
     [example_event ''commit'' ''2024-03-01T10:00:00Z'' (2702159776422297 / 9007199254740992),
      example_event ''pull_request'' ''2024-03-01T10:00:00Z'' (900719925474099 / 2251799813685248)] =
   [''Improve commit message quality and follow conventional commit format'',
    ''Consider breaking down large commits into smaller, focused changes'',
    ''Ensure all pull requests have detailed descriptions'',
    ''Implement mandatory code reviews for all pull requests'']"
  using recommendations_by_kind
    [of "[example_event ''commit'' ''2024-03-01T10:00:00Z'' (2702159776422297 / 9007199254740992),
      example_event ''pull_request'' ''2024-03-01T10:00:00Z'' (900719925474099 / 2251799813685248)]"]
  by (simp add: example_event_def)

section \<open>Events that are neither commits nor pull requests\<close>

text \<open>
  C10. In what a collector or a whole scan returns, every event that is neither a commit
  nor a pull request scores at least 0.7; so every event of the high-risk tier is a commit
  or a pull request, and when that tier is not empty the recommendations are not the
  general message.
\<close>

theorem other_events_never_high_risk:
  assumes "monitor_commits repo r = Inr events \<or>
     monitor_pull_requests repo r = Inr events \<or>
     monitor_file_operations repo r = Inr events \<or>
     monitor_branches_and_tags clk repo r r' = Inr events \<or>
     run_comprehensive_scan repos = Inr events"
  shows "list_all (\<lambda>e. event_type e = ''commit'' \<or> event_type e = ''pull_request'' \<or>
                      py_0_7 \<le> compliance_score e) events \<and>
    list_all (\<lambda>e. event_type e = ''commit'' \<or> event_type e = ''pull_request'')
      (filter (\<lambda>e. compliance_score e < py_0_5) events) \<and>
    (filter (\<lambda>e. compliance_score e < py_0_5) events = [] \<or>
     generate_recommendations (filter (\<lambda>e. compliance_score e < py_0_5) events) \<noteq>
       [''Overall compliance is good. Continue current practices.''])"
proof -
  have other: "event_type e = ''commit'' \<or> event_type e = ''pull_request'' \<or>
      py_0_7 \<le> compliance_score e" if "e \<in> set events" for e
    using collector_output_scored[OF that assms] scored_by_rule_other by blast
  then have a: "list_all (\<lambda>e. event_type e = ''commit'' \<or> event_type e = ''pull_request'' \<or>
                      py_0_7 \<le> compliance_score e) events"
    by (simp add: list_all_iff)
  have lt: "py_0_5 \<le> py_0_7" by (simp add: literal_values)
  have high: "event_type e = ''commit'' \<or> event_type e = ''pull_request''"
    if "e \<in> set events" and "compliance_score e < py_0_5" for e
    using other[OF that(1)] that(2) lt by auto
  then have b: "list_all (\<lambda>e. event_type e = ''commit'' \<or> event_type e = ''pull_request'')
      (filter (\<lambda>e. compliance_score e < py_0_5) events)"
    by (simp add: list_all_iff)
  have c: "generate_recommendations hs \<noteq>
       [''Overall compliance is good. Continue current practices.'']"
    if "hs \<noteq> []" and "list_all (\<lambda>e. event_type e = ''commit'' \<or> event_type e = ''pull_request'') hs"
    for hs
  proof -
    from that obtain e where "e \<in> set hs" "event_type e = ''commit'' \<or> event_type e = ''pull_request''"
      by (cases hs) (auto simp: list_all_iff)
    then have "filter (\<lambda>e. event_type e = ''commit'') hs \<noteq> [] \<or>
        filter (\<lambda>e. event_type e = ''pull_request'') hs \<noteq> []"
      by (auto simp: filter_empty_conv)
    then show ?thesis
      by (auto simp: generate_recommendations_def Let_def)
  qed
  from a b c[OF _ b] show ?thesis by blast
qed

theorem other_events_never_high_risk_witness:
  "\<exists>events.
     monitor_file_operations ''octo/demo''
       (Records [repo_event ''DeleteEvent'' ''7'' ''2024-03-01T10:00:00Z'' ''ann'' 0,
                 repo_event ''WatchEvent'' ''8'' ''2024-03-01T11:00:00Z'' ''bob'' 0,
                 repo_event ''PushEvent'' ''9'' ''2024-03-01T12:00:00Z'' ''ann'' 11]) = Inr events \<and>
     length events = 2 \<and>
     list_all (\<lambda>e. event_type e = ''commit'' \<or> event_type e = ''pull_request'' \<or>
                    py_0_7 \<le> compliance_score e) events"
proof -
  let ?records = "Records [repo_event ''DeleteEvent'' ''7'' ''2024-03-01T10:00:00Z'' ''ann'' 0,
                 repo_event ''WatchEvent'' ''8'' ''2024-03-01T11:00:00Z'' ''bob'' 0,
                 repo_event ''PushEvent'' ''9'' ''2024-03-01T12:00:00Z'' ''ann'' 11]"
  have "\<exists>e1 e2. monitor_file_operations ''octo/demo'' ?records = Inr [e1, e2]"
    by (simp add: monitor_file_operations_def file_operation_event_def bind_result_def
        repo_event_def calculate_file_operation_compliance_score_def)
  then obtain e1 e2 where run: "monitor_file_operations ''octo/demo'' ?records = Inr [e1, e2]"
    by blast
  then have "monitor_commits ''octo/demo'' ?records = Inr [e1, e2] \<or>
     monitor_pull_requests ''octo/demo'' ?records = Inr [e1, e2] \<or>
     monitor_file_operations ''octo/demo'' ?records = Inr [e1, e2] \<or>
     monitor_branches_and_tags (\<lambda>i. []) ''octo/demo'' ?records ?records = Inr [e1, e2] \<or>
     run_comprehensive_scan [] = Inr [e1, e2]"
    by blast
  from other_events_never_high_risk[OF this]
  have "list_all (\<lambda>e. event_type e = ''commit'' \<or> event_type e = ''pull_request'' \<or>
                    py_0_7 \<le> compliance_score e) [e1, e2]"
    by blast
  with run show ?thesis by auto
qed

end
